theory Spec2Isabelle
  imports Main "HOL-Library.Word" "HOL-Library.Sublist"
begin

section \<open>Strings\<close>

text \<open>
  A JavaScript string is a sequence of 16-bit code units; the regular expression of
  \<^verbatim>\<open>getErrorForTransaction\<close> has no \<^verbatim>\<open>u\<close> flag, so it works on code units too.
  \<open>js\<close> writes an ASCII literal as such a string.
\<close>

type_synonym code_unit = "16 word"
type_synonym jsstring = "code_unit list"

definition js :: "string \<Rightarrow> jsstring" where
  "js s = map of_char s"

section \<open>The regular expression \<^verbatim>\<open>/Error: (.*)/gm\<close>\<close>

text \<open>
  Without the \<^verbatim>\<open>s\<close> flag the dot matches every code unit but the four line terminators
  LF, CR, U+2028 and U+2029.
\<close>

definition is_line_terminator :: "code_unit \<Rightarrow> bool" where
  "is_line_terminator c \<longleftrightarrow> c = 0x000A \<or> c = 0x000D \<or> c = 0x2028 \<or> c = 0x2029"

abbreviation (input) not_lt :: "code_unit \<Rightarrow> bool" where
  "not_lt \<equiv> (\<lambda>c. \<not> is_line_terminator c)"

text \<open>
  The array \<^verbatim>\<open>m\<close> that \<^verbatim>\<open>exec\<close> returns: \<^verbatim>\<open>m.index\<close> and the elements
  \<^verbatim>\<open>m[0]\<close> (the whole match) and \<^verbatim>\<open>m[1]\<close> (the capture group), so \<^verbatim>\<open>m.length\<close> is
  \<open>length (groups m)\<close>.
\<close>

record regex_match =
  index :: nat
  groups :: "jsstring list"

text \<open>
  A match attempt at position \<open>i\<close>: the literal \<^verbatim>\<open>Error: \<close> must stand there; the greedy
  \<^verbatim>\<open>(.*)\<close> then takes every code unit up to the next line terminator or the end of the
  string. Nothing follows the group in the pattern, so there is no backtracking.
\<close>

definition match_at :: "jsstring \<Rightarrow> nat \<Rightarrow> regex_match option" where
  "match_at s i =
     (let rest = drop i s in
      if take 7 rest = js ''Error: ''
      then let capture = takeWhile (\<lambda>c. \<not> is_line_terminator c) (drop 7 rest)
           in Some \<lparr>index = i, groups = [js ''Error: '' @ capture, capture]\<rparr>
      else None)"

text \<open>
  The search of \<^verbatim>\<open>exec\<close>: positions are tried from \<^verbatim>\<open>lastIndex\<close> upwards; a position
  beyond the end of the string is a failure.
\<close>

function search_from :: "jsstring \<Rightarrow> nat \<Rightarrow> regex_match option" where
  "search_from s i =
     (if i > length s then None
      else case match_at s i of
             Some m \<Rightarrow> Some m
           | None \<Rightarrow> search_from s (i + 1))"
  by pat_completeness auto
termination
  by (relation "measure (\<lambda>(s, i). length s + 1 - i)") auto

declare search_from.simps [simp del]

text \<open>
  \<^verbatim>\<open>regex.exec(log)\<close> for a global expression, as a function of the string and of
  \<^verbatim>\<open>regex.lastIndex\<close>; it returns the match (or null) and the new \<^verbatim>\<open>lastIndex\<close>: the end
  of the match, or 0 after a failure.
\<close>

definition regex_exec :: "jsstring \<Rightarrow> nat \<Rightarrow> regex_match option \<times> nat" where
  "regex_exec s lastIndex =
     (case search_from s lastIndex of
        None \<Rightarrow> (None, 0)
      | Some m \<Rightarrow> (Some m, index m + length (groups m ! 0)))"

section \<open>The scanning loop of \<^verbatim>\<open>getErrorForTransaction\<close>\<close>

text \<open>
  The \<^verbatim>\<open>while ((m = regex.exec(log)) !== null)\<close> loop, with \<^verbatim>\<open>regex.lastIndex\<close> and the
  array \<^verbatim>\<open>errors\<close> as its state, including the guard against zero-width matches and the
  test \<^verbatim>\<open>m.length > 1\<close>. A loop that does not end has the value \<open>None\<close>.
\<close>

partial_function (option) exec_loop ::
  "jsstring \<Rightarrow> nat \<Rightarrow> jsstring list \<Rightarrow> jsstring list option"
where
  "exec_loop log lastIndex errors =
     (case regex_exec log lastIndex of
        (None, lastIndex') \<Rightarrow> Some errors
      | (Some m, lastIndex') \<Rightarrow>
          let lastIndex'' = (if index m = lastIndex' then lastIndex' + 1 else lastIndex');
              errors' = (if length (groups m) > 1 then errors @ [groups m ! 1] else errors)
          in exec_loop log lastIndex'' errors')"

declare exec_loop.simps [code]

text \<open>
  \<^verbatim>\<open>tx.meta.logMessages.forEach(log => ...)\<close>: every log line gets a new expression object,
  so the loop starts at \<^verbatim>\<open>lastIndex\<close> 0; \<^verbatim>\<open>errors\<close> is shared by all lines.
\<close>

fun forEach_log :: "jsstring list \<Rightarrow> jsstring list \<Rightarrow> jsstring list option" where
  "forEach_log [] errors = Some errors"
| "forEach_log (log # logs) errors =
     (case exec_loop log 0 errors of
        None \<Rightarrow> None
      | Some errors' \<Rightarrow> forEach_log logs errors')"

subsection \<open>What the loop computes\<close>

text \<open>
  \<open>scan\<close> reads a string from the left: at an occurrence of \<^verbatim>\<open>Error: \<close> it emits the rest
  of the line and goes on after it, otherwise it moves one code unit on. The loop above
  is shown to compute it.
\<close>

function scan :: "jsstring \<Rightarrow> jsstring list" where
  "scan [] = []"
| "scan (c # cs) =
     (if take 7 (c # cs) = js ''Error: ''
      then takeWhile (\<lambda>c. \<not> is_line_terminator c) (drop 7 (c # cs))
             # scan (dropWhile (\<lambda>c. \<not> is_line_terminator c) (drop 7 (c # cs)))
      else scan cs)"
  by pat_completeness auto
termination
proof (relation "measure length")
  fix c :: code_unit and cs :: jsstring
  have "length (dropWhile (\<lambda>c. \<not> is_line_terminator c) (drop 7 (c # cs)))
          \<le> length (drop 7 (c # cs))"
    by (rule length_dropWhile_le)
  then show "(dropWhile (\<lambda>c. \<not> is_line_terminator c) (drop 7 (c # cs)), c # cs)
               \<in> measure length"
    by simp
qed simp_all

subsection \<open>The specification's reading of the extraction\<close>

text \<open>
  The number of places of a log line where \<^verbatim>\<open>Error: \<close> occurs: the occurrences the
  specification counts.
\<close>

definition spec_occurrences :: "jsstring \<Rightarrow> nat" where
  "spec_occurrences log =
     length (filter (\<lambda>i. take 7 (drop i log) = js ''Error: '') [0..<length log])"

text \<open>
  A log message cut at its line terminators, and the text after the first
  \<^verbatim>\<open>Error: \<close> of a line, if it has one. \<open>spec_line_errors\<close> gives every line of a log
  message that mentions \<^verbatim>\<open>Error: \<close> one entry: the rest of that line.
\<close>

fun split_lines :: "jsstring \<Rightarrow> jsstring list" where
  "split_lines [] = [[]]"
| "split_lines (c # cs) =
     (if is_line_terminator c then [] # split_lines cs
      else case split_lines cs of
             [] \<Rightarrow> [[c]]
           | seg # segs \<Rightarrow> (c # seg) # segs)"

fun after_first_error :: "jsstring \<Rightarrow> jsstring option" where
  "after_first_error [] = None"
| "after_first_error (c # cs) =
     (if take 7 (c # cs) = js ''Error: '' then Some (drop 7 (c # cs))
      else after_first_error cs)"

definition spec_line_errors :: "jsstring \<Rightarrow> jsstring list" where
  "spec_line_errors log = List.map_filter after_first_error (split_lines log)"

section \<open>The data of a transaction submission\<close>

text \<open>
  The values of \<^verbatim>\<open>@solana/web3.js\<close> that \<^verbatim>\<open>sendTransaction\<close> handles. Public keys and
  serialized transactions are byte strings; block hashes and transaction ids are strings.
\<close>

type_synonym bytes = "8 word list"
type_synonym publicKey = bytes
type_synonym blockhash = jsstring
type_synonym transactionSignature = jsstring

text \<open>The commitment levels the source names: \<^verbatim>\<open>'recent'\<close>, \<^verbatim>\<open>'max'\<close>, \<^verbatim>\<open>'singleGossip'\<close>.\<close>

datatype commitment = CommitmentRecent | CommitmentMax | CommitmentSingleGossip

record account =
  publicKey :: publicKey
  secretKey :: bytes

record transactionInstruction =
  keys :: "publicKey list"
  programId :: publicKey
  data :: bytes

text \<open>
  A \<^verbatim>\<open>Transaction\<close> as far as the source sets it up: the instructions added, the recent
  block hash assigned, and the signer list that \<^verbatim>\<open>setSigners\<close> leaves (the public keys of
  the signature entries; the first one pays the fee).
\<close>

record transaction =
  tx_instructions :: "transactionInstruction list"
  recentBlockhash :: "blockhash option"
  signerKeys :: "publicKey list"

definition new_Transaction :: transaction where
  "new_Transaction = \<lparr>tx_instructions = [], recentBlockhash = None, signerKeys = []\<rparr>"

definition add :: "transaction \<Rightarrow> transactionInstruction \<Rightarrow> transaction" where
  "add t instruction = t\<lparr>tx_instructions := tx_instructions t @ [instruction]\<rparr>"

text \<open>
  \<^verbatim>\<open>Transaction.setSigners\<close> of the library rejects an empty argument list; otherwise it
  filters the keys through a set of the keys already seen, so that a repeated key is
  dropped and the first occurrences stay in their order, and makes the result the signer
  list.
\<close>

fun unique_keys :: "publicKey list \<Rightarrow> publicKey list \<Rightarrow> publicKey list" where
  "unique_keys seen [] = []"
| "unique_keys seen (k # ks) =
     (if k \<in> set seen then unique_keys seen ks else k # unique_keys (k # seen) ks)"

definition setSigners :: "transaction \<Rightarrow> publicKey list \<Rightarrow> jsstring + transaction" where
  "setSigners t pks =
     (if length pks = 0 then Inl (js ''No signers'')
      else Inr (t\<lparr>signerKeys := unique_keys [] pks\<rparr>))"

text \<open>
  The confirmation status is \<^verbatim>\<open>{err: TransactionError | null}\<close> or null, where a
  \<^verbatim>\<open>TransactionError\<close> is an object or a string. \<^verbatim>\<open>status?.err\<close> is tested for
  truthiness: null and the empty string are falsy, every object is truthy.
\<close>

datatype transactionError = ErrString jsstring | ErrObject jsstring

record signatureResult =
  err :: "transactionError option"

definition status_err_truthy :: "signatureResult option \<Rightarrow> bool" where
  "status_err_truthy status =
     (case status of
        None \<Rightarrow> False
      | Some st \<Rightarrow>
          (case err st of
             None \<Rightarrow> False
           | Some (ErrString s) \<Rightarrow> s \<noteq> []
           | Some (ErrObject obj) \<Rightarrow> True))"

text \<open>
  The parsed transaction that \<^verbatim>\<open>getParsedConfirmedTransaction\<close> resolves to (or null), with
  the fields the source reads: \<^verbatim>\<open>meta\<close> may be null, \<^verbatim>\<open>logMessages\<close> null or undefined.
\<close>

record confirmedTransactionMeta =
  logMessages :: "jsstring list option"

record parsedConfirmedTransaction =
  meta :: "confirmedTransactionMeta option"

record sendOptions =
  skipPreflight :: bool
  commitment :: commitment

text \<open>
  The argument of \<^verbatim>\<open>notify\<close>: the title, the extracted errors rendered one per
  \<^verbatim>\<open>div\<close>, the transaction id of the explorer link, and the type.
\<close>

record notification =
  title :: jsstring
  message_errors :: "jsstring list"
  message_link :: transactionSignature
  type :: jsstring

section \<open>Collaborators\<close>

text \<open>
  The RPC connection, the wallet and the transaction methods of the library are outside
  the repository. Each call is a function of its arguments and of the state \<open>'w\<close> of the
  outside world; it returns the new state and either the value the promise resolves to
  (\<open>Inr\<close>) or the message of the error it rejects with or throws (\<open>Inl\<close>).
\<close>

record 'w connection =
  getRecentBlockhash :: "commitment \<Rightarrow> 'w \<Rightarrow> (jsstring + blockhash) \<times> 'w"
  sendRawTransaction ::
    "bytes \<Rightarrow> sendOptions \<Rightarrow> 'w \<Rightarrow> (jsstring + transactionSignature) \<times> 'w"
  confirmTransaction ::
    "transactionSignature \<Rightarrow> commitment \<Rightarrow> 'w \<Rightarrow> (jsstring + signatureResult option) \<times> 'w"
  getParsedConfirmedTransaction ::
    "transactionSignature \<Rightarrow> 'w \<Rightarrow> (jsstring + parsedConfirmedTransaction option) \<times> 'w"

record 'w walletAdapter =
  wallet_publicKey :: "publicKey option"
  signTransaction :: "transaction \<Rightarrow> 'w \<Rightarrow> (jsstring + transaction) \<times> 'w"

record web3 =
  partialSign :: "transaction \<Rightarrow> account list \<Rightarrow> jsstring + transaction"
  serialize :: "transaction \<Rightarrow> jsstring + bytes"
  JSON_stringify :: "signatureResult option \<Rightarrow> jsstring"

text \<open>
  Every call of a collaborator is recorded, in order, with its arguments and its outcome.
\<close>

datatype event =
    GetRecentBlockhash commitment "jsstring + blockhash"
  | PartialSign transaction "account list" "jsstring + transaction"
  | SignTransaction transaction "jsstring + transaction"
  | Serialize transaction "jsstring + bytes"
  | SendRawTransaction bytes sendOptions "jsstring + transactionSignature"
  | ConfirmTransaction transactionSignature commitment "jsstring + signatureResult option"
  | GetParsedConfirmedTransaction transactionSignature
      "jsstring + parsedConfirmedTransaction option"
  | Notify notification

text \<open>
  How a call of \<^verbatim>\<open>sendTransaction\<close> fails: with an error its own \<^verbatim>\<open>throw\<close> statements
  create (\<open>Thrown\<close>, with the message), or with the failure of a collaborator, which no
  \<^verbatim>\<open>try\<close> catches (\<open>Rejected\<close>).
\<close>

datatype failure = Thrown jsstring | Rejected jsstring

section \<open>\<^verbatim>\<open>getErrorForTransaction\<close>\<close>

text \<open>
  The part after the two queries: \<^verbatim>\<open>errors\<close> starts empty and is filled only under
  \<^verbatim>\<open>if (tx?.meta && tx.meta.logMessages)\<close>.
\<close>

definition extract_errors :: "parsedConfirmedTransaction option \<Rightarrow> jsstring list option" where
  "extract_errors tx =
     (case tx of
        None \<Rightarrow> Some []
      | Some t \<Rightarrow>
          (case meta t of
             None \<Rightarrow> Some []
           | Some m \<Rightarrow>
               (case logMessages m of
                  None \<Rightarrow> Some []
                | Some logs \<Rightarrow> forEach_log logs [])))"

text \<open>
  The function awaits \<^verbatim>\<open>confirmTransaction(txid, 'max')\<close>, then
  \<^verbatim>\<open>getParsedConfirmedTransaction(txid)\<close>, and returns the extracted errors. It has no
  \<^verbatim>\<open>throw\<close> of its own; a failing query ends it. The result is \<open>None\<close> if it does not
  return.
\<close>

definition getErrorForTransaction ::
  "'w connection \<Rightarrow> transactionSignature \<Rightarrow> 'w \<Rightarrow>
   ((jsstring + jsstring list) \<times> 'w \<times> event list) option"
where
  "getErrorForTransaction connection txid w =
     (case confirmTransaction connection txid CommitmentMax w of (r1, w1) \<Rightarrow>
      let t1 = [ConfirmTransaction txid CommitmentMax r1] in
      case r1 of
        Inl e \<Rightarrow> Some (Inl e, w1, t1)
      | Inr confirmed \<Rightarrow>
     (case getParsedConfirmedTransaction connection txid w1 of (r2, w2) \<Rightarrow>
      let t2 = t1 @ [GetParsedConfirmedTransaction txid r2] in
      case r2 of
        Inl e \<Rightarrow> Some (Inl e, w2, t2)
      | Inr tx \<Rightarrow>
     (case extract_errors tx of
        None \<Rightarrow> None
      | Some errors \<Rightarrow> Some (Inr errors, w2, t2))))"

section \<open>\<^verbatim>\<open>sendTransaction\<close>\<close>

text \<open>The message of the error thrown after a failed confirmation.\<close>

definition failure_message ::
  "web3 \<Rightarrow> transactionSignature \<Rightarrow> signatureResult option \<Rightarrow> jsstring"
where
  "failure_message lib txid status =
     js ''Raw transaction '' @ txid @ js '' failed ('' @ JSON_stringify lib status @ js '')''"

text \<open>
  The function, statement by statement. \<open>wallet\<close> is \<open>None\<close> for a null or undefined
  wallet. The result is the outcome (\<open>Inl\<close> a failure, \<open>Inr\<close> the returned transaction
  id), the state of the outside world and the calls made, or \<open>None\<close> if the call does
  not return.
\<close>

definition sendTransaction ::
  "'w connection \<Rightarrow> 'w walletAdapter option \<Rightarrow> web3 \<Rightarrow> transactionInstruction list \<Rightarrow>
   account list \<Rightarrow> bool \<Rightarrow> 'w \<Rightarrow> ((failure + transactionSignature) \<times> 'w \<times> event list) option"
where
  "sendTransaction connection wallet lib instrs signers awaitConfirmation w =
     (case wallet of
        None \<Rightarrow> Some (Inl (Thrown (js ''Wallet is not connected'')), w, [])
      | Some wa \<Rightarrow>
     (case wallet_publicKey wa of
        None \<Rightarrow> Some (Inl (Thrown (js ''Wallet is not connected'')), w, [])
      | Some pk \<Rightarrow>
      let transaction = fold (\<lambda>instruction t. add t instruction) instrs new_Transaction in
     (case getRecentBlockhash connection CommitmentMax w of (r1, w1) \<Rightarrow>
      let t1 = [GetRecentBlockhash CommitmentMax r1] in
      case r1 of
        Inl e \<Rightarrow> Some (Inl (Rejected e), w1, t1)
      | Inr bh \<Rightarrow>
     (case setSigners (transaction\<lparr>recentBlockhash := Some bh\<rparr>)
             (pk # map publicKey signers) of
        Inl e \<Rightarrow> Some (Inl (Rejected e), w1, t1)
      | Inr transaction \<Rightarrow>
      let r2 = (if length signers > 0 then partialSign lib transaction signers
                else Inr transaction);
          t2 = t1 @ (if length signers > 0 then [PartialSign transaction signers r2] else [])
      in
     (case r2 of
        Inl e \<Rightarrow> Some (Inl (Rejected e), w1, t2)
      | Inr transaction \<Rightarrow>
     (case signTransaction wa transaction w1 of (r3, w3) \<Rightarrow>
      let t3 = t2 @ [SignTransaction transaction r3] in
      case r3 of
        Inl e \<Rightarrow> Some (Inl (Rejected e), w3, t3)
      | Inr transaction \<Rightarrow>
      let r4 = serialize lib transaction;
          t4 = t3 @ [Serialize transaction r4]
      in
     (case r4 of
        Inl e \<Rightarrow> Some (Inl (Rejected e), w3, t4)
      | Inr rawTransaction \<Rightarrow>
      let options = \<lparr>skipPreflight = True, commitment = CommitmentSingleGossip\<rparr> in
     (case sendRawTransaction connection rawTransaction options w3 of (r5, w5) \<Rightarrow>
      let t5 = t4 @ [SendRawTransaction rawTransaction options r5] in
      case r5 of
        Inl e \<Rightarrow> Some (Inl (Rejected e), w5, t5)
      | Inr txid \<Rightarrow>
      if awaitConfirmation then
       (case confirmTransaction connection txid (commitment options) w5 of (r6, w6) \<Rightarrow>
        let t6 = t5 @ [ConfirmTransaction txid (commitment options) r6] in
        case r6 of
          Inl e \<Rightarrow> Some (Inl (Rejected e), w6, t6)
        | Inr status \<Rightarrow>
          if status_err_truthy status then
           (case getErrorForTransaction connection txid w6 of
              None \<Rightarrow> None
            | Some (r7, w7, t7) \<Rightarrow>
               (case r7 of
                  Inl e \<Rightarrow> Some (Inl (Rejected e), w7, t6 @ t7)
                | Inr errors \<Rightarrow>
                    Some (Inl (Thrown (failure_message lib txid status)), w7,
                          t6 @ t7 @ [Notify \<lparr>title = js ''Transaction failed...'',
                                              message_errors = errors,
                                              message_link = txid,
                                              type = js ''error''\<rparr>])))
          else Some (Inr txid, w6, t6))
      else Some (Inr txid, w5, t5)))))))))"

text \<open>
  The transaction as the statements up to \<^verbatim>\<open>setSigners\<close> leave it, for the wallet key
  \<open>pk\<close> and the block hash \<open>bh\<close>: the one the first signing step receives.
\<close>

definition assembled_transaction ::
  "transactionInstruction list \<Rightarrow> blockhash \<Rightarrow> publicKey \<Rightarrow> account list \<Rightarrow> transaction"
where
  "assembled_transaction instrs bh pk signers =
     \<lparr>tx_instructions = instrs, recentBlockhash = Some bh,
      signerKeys = unique_keys [] (pk # map publicKey signers)\<rparr>"

section \<open>Endpoints\<close>

text \<open>
  \<^verbatim>\<open>Cluster\<close> is the type of the three cluster names; \<open>cluster_name\<close> is the string a
  value of it is at run time.
\<close>

datatype cluster = MainnetBeta | Testnet | Devnet

definition cluster_name :: "cluster \<Rightarrow> jsstring" where
  "cluster_name c =
     (case c of
        MainnetBeta \<Rightarrow> js ''mainnet-beta''
      | Testnet \<Rightarrow> js ''testnet''
      | Devnet \<Rightarrow> js ''devnet'')"

datatype chainID = ChainID_MainnetBeta | ChainID_Testnet | ChainID_Devnet

record endpoint =
  name :: cluster
  endpointUrl :: jsstring
  chainID :: chainID

text \<open>
  The table \<^verbatim>\<open>ENDPOINTS\<close>, keyed by cluster. \<^verbatim>\<open>clusterApiUrl\<close> belongs to the library
  and is a parameter.
\<close>

definition ENDPOINTS :: "(cluster \<Rightarrow> jsstring) \<Rightarrow> cluster \<Rightarrow> endpoint" where
  "ENDPOINTS clusterApiUrl c =
     (case c of
        MainnetBeta \<Rightarrow>
          \<lparr>name = MainnetBeta,
           endpointUrl = js ''https://solana-api.projectserum.com/'',
           chainID = ChainID_MainnetBeta\<rparr>
      | Testnet \<Rightarrow>
          \<lparr>name = Testnet,
           endpointUrl = clusterApiUrl Testnet,
           chainID = ChainID_Testnet\<rparr>
      | Devnet \<Rightarrow>
          \<lparr>name = Devnet,
           endpointUrl = clusterApiUrl Devnet,
           chainID = ChainID_Devnet\<rparr>)"

text \<open>
  \<^verbatim>\<open>DEFAULT_CLUSTER\<close> is the build variable \<^verbatim>\<open>REACT_APP_SOLANA_CLUSTER\<close>, which the source
  casts to \<^verbatim>\<open>Cluster\<close>, or \<^verbatim>\<open>'devnet'\<close> when the variable is unset or empty (\<open>None\<close>).
\<close>

definition DEFAULT_CLUSTER :: "cluster option \<Rightarrow> cluster" where
  "DEFAULT_CLUSTER REACT_APP_SOLANA_CLUSTER =
     (case REACT_APP_SOLANA_CLUSTER of Some c \<Rightarrow> c | None \<Rightarrow> Devnet)"

definition DEFAULT_ENDPOINT :: "cluster option \<Rightarrow> (cluster \<Rightarrow> jsstring) \<Rightarrow> endpoint" where
  "DEFAULT_ENDPOINT REACT_APP_SOLANA_CLUSTER clusterApiUrl =
     ENDPOINTS clusterApiUrl (DEFAULT_CLUSTER REACT_APP_SOLANA_CLUSTER)"

text \<open>
  \<^verbatim>\<open>ENDPOINTS[endpoint as Cluster]\<close> is a property read of an object literal with an
  arbitrary string: it finds one of the three own properties, or a property inherited from
  \<^verbatim>\<open>Object.prototype\<close>, or nothing. \<open>Object_prototype\<close> lists the standard properties of
  \<^verbatim>\<open>Object.prototype\<close> with the \<^verbatim>\<open>name\<close> of the value found there: the inherited
  functions are named after their key (\<^verbatim>\<open>constructor\<close> is \<^verbatim>\<open>Object\<close>), and
  \<^verbatim>\<open>__proto__\<close> yields the prototype object, which has no \<^verbatim>\<open>name\<close>.
\<close>

datatype property_value =
    EndpointValue endpoint
  | InheritedValue "jsstring option"
  | Undefined

definition Object_prototype :: "(jsstring \<times> jsstring option) list" where
  "Object_prototype =
     [(js ''constructor'', Some (js ''Object'')),
      (js ''__defineGetter__'', Some (js ''__defineGetter__'')),
      (js ''__defineSetter__'', Some (js ''__defineSetter__'')),
      (js ''hasOwnProperty'', Some (js ''hasOwnProperty'')),
      (js ''__lookupGetter__'', Some (js ''__lookupGetter__'')),
      (js ''__lookupSetter__'', Some (js ''__lookupSetter__'')),
      (js ''isPrototypeOf'', Some (js ''isPrototypeOf'')),
      (js ''propertyIsEnumerable'', Some (js ''propertyIsEnumerable'')),
      (js ''toString'', Some (js ''toString'')),
      (js ''valueOf'', Some (js ''valueOf'')),
      (js ''__proto__'', None),
      (js ''toLocaleString'', Some (js ''toLocaleString''))]"

definition ENDPOINTS_get :: "(cluster \<Rightarrow> jsstring) \<Rightarrow> jsstring \<Rightarrow> property_value" where
  "ENDPOINTS_get clusterApiUrl key =
     (if key = js ''mainnet-beta'' then EndpointValue (ENDPOINTS clusterApiUrl MainnetBeta)
      else if key = js ''testnet'' then EndpointValue (ENDPOINTS clusterApiUrl Testnet)
      else if key = js ''devnet'' then EndpointValue (ENDPOINTS clusterApiUrl Devnet)
      else case map_of Object_prototype key of
             Some n \<Rightarrow> InheritedValue n
           | None \<Rightarrow> Undefined)"

text \<open>\<^verbatim>\<open>chain.name\<close>; \<open>None\<close> is undefined.\<close>

definition value_name :: "property_value \<Rightarrow> jsstring option" where
  "value_name v =
     (case v of
        EndpointValue e \<Rightarrow> Some (cluster_name (name e))
      | InheritedValue n \<Rightarrow> n
      | Undefined \<Rightarrow> None)"

section \<open>Connection objects\<close>

text \<open>
  A \<^verbatim>\<open>Connection\<close> is a mutable object, known by its identity (a \<open>handle\<close>). The store
  \<open>objects\<close> maps the handles of the objects constructed so far to their state: the
  endpoint and commitment given to the constructor and the two subscription tables with
  their counters. A subscription is entered under the next value of its counter and
  leaves the table when its listener is removed. The callbacks of the source are
  \<^verbatim>\<open>() => {}\<close> and \<^verbatim>\<open>() => null\<close>; both do nothing. An account-change subscription
  also holds the key of the account watched: the source makes a new \<^verbatim>\<open>Account\<close> for each,
  and new accounts are numbered.
\<close>

type_synonym handle = nat

datatype callback = Callback_undefined | Callback_null

record connection_object =
  rpcEndpoint :: jsstring
  object_commitment :: commitment
  accountChangeSubscriptions :: "(nat \<times> nat \<times> callback) list"
  accountChangeSubscriptionCounter :: nat
  slotSubscriptions :: "(nat \<times> callback) list"
  slotSubscriptionCounter :: nat

record runtime =
  objects :: "handle \<Rightarrow> connection_object option"
  next_handle :: handle
  next_account :: nat

definition new_Connection :: "jsstring \<Rightarrow> commitment \<Rightarrow> runtime \<Rightarrow> handle \<times> runtime" where
  "new_Connection endpoint c rt =
     (next_handle rt,
      rt\<lparr>objects := (objects rt)(next_handle rt \<mapsto>
             \<lparr>rpcEndpoint = endpoint, object_commitment = c,
              accountChangeSubscriptions = [], accountChangeSubscriptionCounter = 0,
              slotSubscriptions = [], slotSubscriptionCounter = 0\<rparr>),
         next_handle := next_handle rt + 1\<rparr>)"

definition new_Account :: "runtime \<Rightarrow> nat \<times> runtime" where
  "new_Account rt = (next_account rt, rt\<lparr>next_account := next_account rt + 1\<rparr>)"

definition onAccountChange :: "handle \<Rightarrow> nat \<Rightarrow> callback \<Rightarrow> runtime \<Rightarrow> nat \<times> runtime" where
  "onAccountChange h key cb rt =
     (case objects rt h of
        None \<Rightarrow> (0, rt)
      | Some c \<Rightarrow>
          let sid = accountChangeSubscriptionCounter c + 1 in
          (sid, rt\<lparr>objects := (objects rt)(h \<mapsto>
                  c\<lparr>accountChangeSubscriptions := accountChangeSubscriptions c @ [(sid, key, cb)],
                    accountChangeSubscriptionCounter := sid\<rparr>)\<rparr>))"

definition removeAccountChangeListener :: "handle \<Rightarrow> nat \<Rightarrow> runtime \<Rightarrow> runtime" where
  "removeAccountChangeListener h sid rt =
     (case objects rt h of
        None \<Rightarrow> rt
      | Some c \<Rightarrow>
          rt\<lparr>objects := (objects rt)(h \<mapsto>
               c\<lparr>accountChangeSubscriptions :=
                    filter (\<lambda>s. fst s \<noteq> sid) (accountChangeSubscriptions c)\<rparr>)\<rparr>)"

definition onSlotChange :: "handle \<Rightarrow> callback \<Rightarrow> runtime \<Rightarrow> nat \<times> runtime" where
  "onSlotChange h cb rt =
     (case objects rt h of
        None \<Rightarrow> (0, rt)
      | Some c \<Rightarrow>
          let sid = slotSubscriptionCounter c + 1 in
          (sid, rt\<lparr>objects := (objects rt)(h \<mapsto>
                  c\<lparr>slotSubscriptions := slotSubscriptions c @ [(sid, cb)],
                    slotSubscriptionCounter := sid\<rparr>)\<rparr>))"

definition removeSlotChangeListener :: "handle \<Rightarrow> nat \<Rightarrow> runtime \<Rightarrow> runtime" where
  "removeSlotChangeListener h sid rt =
     (case objects rt h of
        None \<Rightarrow> rt
      | Some c \<Rightarrow>
          rt\<lparr>objects := (objects rt)(h \<mapsto>
               c\<lparr>slotSubscriptions := filter (\<lambda>s. fst s \<noteq> sid) (slotSubscriptions c)\<rparr>)\<rparr>)"

definition account_subscriptions :: "runtime \<Rightarrow> handle \<Rightarrow> (nat \<times> nat \<times> callback) list" where
  "account_subscriptions rt h =
     (case objects rt h of None \<Rightarrow> [] | Some c \<Rightarrow> accountChangeSubscriptions c)"

definition slot_subscriptions :: "runtime \<Rightarrow> handle \<Rightarrow> (nat \<times> callback) list" where
  "slot_subscriptions rt h =
     (case objects rt h of None \<Rightarrow> [] | Some c \<Rightarrow> slotSubscriptions c)"

section \<open>Hooks\<close>

text \<open>
  The component keeps one cell per hook call between renders. A \<^verbatim>\<open>useMemo\<close> cell holds
  the value and the dependency it was computed for; the factory runs again only when the
  dependency differs. A \<^verbatim>\<open>useEffect\<close> cell holds the cleanup the effect returned and its
  dependency; when a render is committed with another dependency (or for the first
  time), the old cleanup runs and then the effect. All due cleanups of a component run
  before its due effects.

  The cleanups of the source are closures over a connection and a subscription id.
\<close>

datatype cleanup = RemoveAccountChangeListener handle nat | RemoveSlotChangeListener handle nat

fun run_cleanup :: "cleanup \<Rightarrow> runtime \<Rightarrow> runtime" where
  "run_cleanup (RemoveAccountChangeListener h sid) rt = removeAccountChangeListener h sid rt"
| "run_cleanup (RemoveSlotChangeListener h sid) rt = removeSlotChangeListener h sid rt"

definition useMemo ::
  "(handle \<times> jsstring) option \<Rightarrow> (runtime \<Rightarrow> handle \<times> runtime) \<Rightarrow> jsstring \<Rightarrow> runtime \<Rightarrow>
   handle \<times> (handle \<times> jsstring) option \<times> runtime"
where
  "useMemo cell factory dep rt =
     (case cell of
        Some (v, d) \<Rightarrow>
          if d = dep then (v, cell, rt)
          else (case factory rt of (v', rt') \<Rightarrow> (v', Some (v', dep), rt'))
      | None \<Rightarrow> (case factory rt of (v', rt') \<Rightarrow> (v', Some (v', dep), rt')))"

definition effect_cleanup :: "(cleanup \<times> handle) option \<Rightarrow> handle \<Rightarrow> runtime \<Rightarrow> runtime" where
  "effect_cleanup cell dep rt =
     (case cell of
        Some (c, d) \<Rightarrow> if d = dep then rt else run_cleanup c rt
      | None \<Rightarrow> rt)"

definition effect_run ::
  "(cleanup \<times> handle) option \<Rightarrow> (runtime \<Rightarrow> cleanup \<times> runtime) \<Rightarrow> handle \<Rightarrow> runtime \<Rightarrow>
   (cleanup \<times> handle) option \<times> runtime"
where
  "effect_run cell effect dep rt =
     (case cell of
        Some (c, d) \<Rightarrow>
          if d = dep then (cell, rt)
          else (case effect rt of (c', rt') \<Rightarrow> (Some (c', dep), rt'))
      | None \<Rightarrow> (case effect rt of (c', rt') \<Rightarrow> (Some (c', dep), rt')))"

section \<open>\<^verbatim>\<open>SolanaConnectionConfigProvider\<close>\<close>

text \<open>
  The hook cells of the provider, in the order of its hook calls, and the part of the
  context value that concerns connections and the network.
\<close>

record provider_hooks =
  memo_connection :: "(handle \<times> jsstring) option"
  memo_sendConnection :: "(handle \<times> jsstring) option"
  effect_1 :: "(cleanup \<times> handle) option"
  effect_2 :: "(cleanup \<times> handle) option"
  effect_3 :: "(cleanup \<times> handle) option"
  effect_4 :: "(cleanup \<times> handle) option"

record provider_state =
  hooks :: provider_hooks
  runtime :: runtime

record connectionConfig =
  config_connection :: handle
  config_sendConnection :: handle
  config_endpointUrl :: jsstring
  config_network :: "jsstring option"

text \<open>
  The bodies of the four effects: the two on \<^verbatim>\<open>connection\<close> and the two on
  \<^verbatim>\<open>sendConnection\<close> differ only in the object.
\<close>

definition account_effect :: "handle \<Rightarrow> runtime \<Rightarrow> cleanup \<times> runtime" where
  "account_effect connection rt =
     (case new_Account rt of (key, rt1) \<Rightarrow>
      case onAccountChange connection key Callback_undefined rt1 of (sid, rt2) \<Rightarrow>
        (RemoveAccountChangeListener connection sid, rt2))"

definition slot_effect :: "handle \<Rightarrow> runtime \<Rightarrow> cleanup \<times> runtime" where
  "slot_effect connection rt =
     (case onSlotChange connection Callback_null rt of (sid, rt1) \<Rightarrow>
        (RemoveSlotChangeListener connection sid, rt1))"

text \<open>
  One committed render. \<open>endpoint\<close> is the value the \<^verbatim>\<open>useLocalStorage\<close> hook returns
  for \<^verbatim>\<open>'connectionEndpts'\<close> at this render (the hook is not part of this file; a call
  of \<^verbatim>\<open>setEndpoint\<close> shows as a later render with another value). The render returns the
  context value and the state after its effects.
\<close>

definition SolanaConnectionConfigProvider ::
  "cluster option \<Rightarrow> (cluster \<Rightarrow> jsstring) \<Rightarrow> jsstring \<Rightarrow> provider_state \<Rightarrow>
   connectionConfig \<times> provider_state"
where
  "SolanaConnectionConfigProvider REACT_APP_SOLANA_CLUSTER clusterApiUrl endpoint st =
     (case useMemo (memo_connection (hooks st)) (new_Connection endpoint CommitmentRecent)
             endpoint (runtime st) of (connection, m1, rt1) \<Rightarrow>
      case useMemo (memo_sendConnection (hooks st)) (new_Connection endpoint CommitmentRecent)
             endpoint rt1 of (sendConnection, m2, rt2) \<Rightarrow>
      let chain = (case ENDPOINTS_get clusterApiUrl endpoint of
                     Undefined \<Rightarrow>
                       EndpointValue (DEFAULT_ENDPOINT REACT_APP_SOLANA_CLUSTER clusterApiUrl)
                   | v \<Rightarrow> v);
          env = value_name chain;
          rt3 = effect_cleanup (effect_1 (hooks st)) connection rt2;
          rt4 = effect_cleanup (effect_2 (hooks st)) connection rt3;
          rt5 = effect_cleanup (effect_3 (hooks st)) sendConnection rt4;
          rt6 = effect_cleanup (effect_4 (hooks st)) sendConnection rt5
      in
      case effect_run (effect_1 (hooks st)) (account_effect connection) connection rt6
        of (e1, rt7) \<Rightarrow>
      case effect_run (effect_2 (hooks st)) (slot_effect connection) connection rt7
        of (e2, rt8) \<Rightarrow>
      case effect_run (effect_3 (hooks st)) (account_effect sendConnection) sendConnection rt8
        of (e3, rt9) \<Rightarrow>
      case effect_run (effect_4 (hooks st)) (slot_effect sendConnection) sendConnection rt9
        of (e4, rt10) \<Rightarrow>
        (\<lparr>config_connection = connection,
          config_sendConnection = sendConnection,
          config_endpointUrl = endpoint,
          config_network = env\<rparr>,
         \<lparr>hooks = \<lparr>memo_connection = m1, memo_sendConnection = m2,
                   effect_1 = e1, effect_2 = e2, effect_3 = e3, effect_4 = e4\<rparr>,
          runtime = rt10\<rparr>))"

text \<open>
  Loading the module constructs the two connections of the context's default value.
  The provider starts with empty hook cells in that store.
\<close>

definition module_runtime :: "cluster option \<Rightarrow> (cluster \<Rightarrow> jsstring) \<Rightarrow> runtime" where
  "module_runtime REACT_APP_SOLANA_CLUSTER clusterApiUrl =
     (let rt0 = \<lparr>objects = Map.empty, next_handle = 0, next_account = 0\<rparr>;
          url = endpointUrl (DEFAULT_ENDPOINT REACT_APP_SOLANA_CLUSTER clusterApiUrl)
      in case new_Connection url CommitmentRecent rt0 of (connection, rt1) \<Rightarrow>
         case new_Connection url CommitmentRecent rt1 of (sendConnection, rt2) \<Rightarrow> rt2)"

definition unmounted :: "cluster option \<Rightarrow> (cluster \<Rightarrow> jsstring) \<Rightarrow> provider_state" where
  "unmounted REACT_APP_SOLANA_CLUSTER clusterApiUrl =
     \<lparr>hooks = \<lparr>memo_connection = None, memo_sendConnection = None,
               effect_1 = None, effect_2 = None, effect_3 = None, effect_4 = None\<rparr>,
      runtime = module_runtime REACT_APP_SOLANA_CLUSTER clusterApiUrl\<rparr>"

text \<open>
  The provider after its first render with \<open>endpoint\<close> and one more render for every
  element of \<open>endpoints\<close>: the last context value and the state.
\<close>

definition after_renders ::
  "cluster option \<Rightarrow> (cluster \<Rightarrow> jsstring) \<Rightarrow> jsstring \<Rightarrow> jsstring list \<Rightarrow>
   connectionConfig \<times> provider_state"
where
  "after_renders v capi endpoint endpoints =
     foldl (\<lambda>r e. SolanaConnectionConfigProvider v capi e (snd r))
       (SolanaConnectionConfigProvider v capi endpoint (unmounted v capi)) endpoints"

text \<open>
  What holds between renders: the memo cells hold the two exposed handles, which are
  distinct constructed objects; each of the two objects has exactly the account-change
  and the slot-change subscription whose cleanup the effect cells hold.
\<close>

definition provider_inv :: "connectionConfig \<Rightarrow> provider_state \<Rightarrow> bool" where
  "provider_inv cfg st \<longleftrightarrow>
     (let hc = config_connection cfg; hs = config_sendConnection cfg;
          e = config_endpointUrl cfg; h = hooks st; rt = runtime st
      in memo_connection h = Some (hc, e) \<and> memo_sendConnection h = Some (hs, e) \<and>
         hc \<noteq> hs \<and> hc < next_handle rt \<and> hs < next_handle rt \<and>
         (\<forall>x. next_handle rt \<le> x \<longrightarrow> objects rt x = None) \<and>
         (\<exists>c i k j. objects rt hc = Some c \<and>
            accountChangeSubscriptions c = [(i, k, Callback_undefined)] \<and>
            slotSubscriptions c = [(j, Callback_null)] \<and>
            effect_1 h = Some (RemoveAccountChangeListener hc i, hc) \<and>
            effect_2 h = Some (RemoveSlotChangeListener hc j, hc)) \<and>
         (\<exists>c i k j. objects rt hs = Some c \<and>
            accountChangeSubscriptions c = [(i, k, Callback_undefined)] \<and>
            slotSubscriptions c = [(j, Callback_null)] \<and>
            effect_3 h = Some (RemoveAccountChangeListener hs i, hs) \<and>
            effect_4 h = Some (RemoveSlotChangeListener hs j, hs)))"

text \<open>
  Every URL starts with a scheme and a colon; a string with a colon is all that the
  network lookup needs of a URL.
\<close>

definition is_url :: "jsstring \<Rightarrow> bool" where
  "is_url s \<longleftrightarrow> of_char (CHR '':'') \<in> set s"

section \<open>Example collaborators\<close>

text \<open>
  A connection that answers every blockhash request and submission, confirms with the
  given status for each commitment level and answers the transaction query as given; a
  wallet that signs; library functions that succeed.
\<close>

definition example_connection ::
  "(commitment \<Rightarrow> jsstring + signatureResult option) \<Rightarrow>
   (jsstring + parsedConfirmedTransaction option) \<Rightarrow> unit connection"
where
  "example_connection confirmations parsed =
     \<lparr>getRecentBlockhash = (\<lambda>c w. (Inr (js ''blockhash-1''), w)),
      sendRawTransaction = (\<lambda>raw options w. (Inr (js ''txid-1''), w)),
      confirmTransaction = (\<lambda>txid c w. (confirmations c, w)),
      getParsedConfirmedTransaction = (\<lambda>txid w. (parsed, w))\<rparr>"

definition example_wallet :: "unit walletAdapter" where
  "example_wallet =
     \<lparr>wallet_publicKey = Some [1, 2, 3],
      signTransaction = (\<lambda>t w. (Inr t, w))\<rparr>"

definition example_lib :: web3 where
  "example_lib =
     \<lparr>partialSign = (\<lambda>t accounts. Inr t),
      serialize = (\<lambda>t. Inr [7]),
      JSON_stringify =
        (\<lambda>status. case status of None \<Rightarrow> js ''null'' | Some st \<Rightarrow> js ''{err}'')\<rparr>"

definition example_instruction :: transactionInstruction where
  "example_instruction = \<lparr>keys = [[1, 2, 3], [9]], programId = [5], data = [0]\<rparr>"

definition example_signer :: account where
  "example_signer = \<lparr>publicKey = [9], secretKey = [4]\<rparr>"

definition failed_status :: "signatureResult option" where
  "failed_status = Some \<lparr>err = Some (ErrObject (js ''InstructionError''))\<rparr>"

definition example_clusterApiUrl :: "cluster \<Rightarrow> jsstring" where
  "example_clusterApiUrl c =
     (case c of
        MainnetBeta \<Rightarrow> js ''https://api.mainnet-beta.solana.com''
      | Testnet \<Rightarrow> js ''https://api.testnet.solana.com''
      | Devnet \<Rightarrow> js ''https://api.devnet.solana.com'')"

text \<open>
  The provider mounted on the devnet endpoint, and then switched to the testnet one.
\<close>

definition example_mounted :: "connectionConfig \<times> provider_state" where
  "example_mounted =
     after_renders None example_clusterApiUrl (js ''https://api.devnet.solana.com'') []"

definition example_switched :: "connectionConfig \<times> provider_state" where
  "example_switched =
     SolanaConnectionConfigProvider None example_clusterApiUrl
       (js ''https://api.testnet.solana.com'') (snd example_mounted)"

section \<open>Properties of the scanning loop\<close>

lemma js_Error: "js ''Error: '' = [69, 114, 114, 111, 114, 58, 32]"
  by (simp add: js_def)

lemma length_js_Error: "length (js ''Error: '') = 7"
  by (simp add: js_def)

lemma Error_no_line_terminator: "\<forall>c \<in> set (js ''Error: ''). \<not> is_line_terminator c"
  by (simp add: js_Error is_line_terminator_def)

lemma search_from_end: "length s \<le> i \<Longrightarrow> search_from s i = None"
  by (subst search_from.simps, subst search_from.simps)
     (simp add: match_at_def js_Error Let_def)

lemma search_from_hit:
  "i \<le> length s \<Longrightarrow> take 7 (drop i s) = js ''Error: '' \<Longrightarrow>
   search_from s i =
     Some \<lparr>index = i,
           groups = [js ''Error: '' @ takeWhile (\<lambda>c. \<not> is_line_terminator c) (drop 7 (drop i s)),
                     takeWhile (\<lambda>c. \<not> is_line_terminator c) (drop 7 (drop i s))]\<rparr>"
  by (subst search_from.simps) (simp add: match_at_def Let_def)

lemma search_from_miss:
  "i \<le> length s \<Longrightarrow> take 7 (drop i s) \<noteq> js ''Error: '' \<Longrightarrow>
   search_from s i = search_from s (Suc i)"
  by (subst search_from.simps) (simp add: match_at_def Let_def)

lemma exec_loop_end: "length s \<le> i \<Longrightarrow> exec_loop s i acc = Some acc"
  by (subst exec_loop.simps) (simp add: regex_exec_def search_from_end)

lemma exec_loop_miss:
  assumes "i \<le> length s" "take 7 (drop i s) \<noteq> js ''Error: ''"
  shows "exec_loop s i acc = exec_loop s (Suc i) acc"
proof -
  have "regex_exec s i = regex_exec s (Suc i)"
    using assms by (simp add: regex_exec_def search_from_miss)
  then show ?thesis
    by (simp add: exec_loop.simps [of s i acc] exec_loop.simps [of s "Suc i" acc])
qed

text \<open>
  After a match the new \<^verbatim>\<open>lastIndex\<close> lies at least seven code units after
  \<^verbatim>\<open>m.index\<close>, so the zero-width guard never fires, and \<^verbatim>\<open>m[1]\<close> is pushed.
\<close>

lemma exec_loop_hit:
  assumes "i \<le> length s" "take 7 (drop i s) = js ''Error: ''"
  shows "exec_loop s i acc =
         exec_loop s
           (i + 7 + length (takeWhile (\<lambda>c. \<not> is_line_terminator c) (drop 7 (drop i s))))
           (acc @ [takeWhile (\<lambda>c. \<not> is_line_terminator c) (drop 7 (drop i s))])"
  using assms
  by (subst exec_loop.simps)
     (simp add: regex_exec_def search_from_hit length_js_Error Let_def add.assoc)

lemma exec_loop_scan: "drop i s = t \<Longrightarrow> exec_loop s i acc = Some (acc @ scan t)"
proof (induction t arbitrary: i acc rule: scan.induct)
  case 1
  then show ?case by (simp add: exec_loop_end)
next
  case (2 c cs)
  from "2.prems" have i: "i < length s"
    by (metis drop_eq_Nil list.distinct(1) not_le)
  show ?case
  proof (cases "take 7 (c # cs) = js ''Error: ''")
    case True
    let ?cap = "takeWhile (\<lambda>c. \<not> is_line_terminator c) (drop 7 (c # cs))"
    have d: "drop (i + 7 + length ?cap) s =
             dropWhile (\<lambda>c. \<not> is_line_terminator c) (drop 7 (c # cs))"
    proof -
      have "drop (i + 7 + length ?cap) s = drop (length ?cap) (drop 7 (drop i s))"
        by (simp add: add.commute add.left_commute)
      also have "\<dots> = drop (length ?cap) (drop 7 (c # cs))"
        using "2.prems" by simp
      also have "\<dots> = dropWhile (\<lambda>c. \<not> is_line_terminator c) (drop 7 (c # cs))"
        by (simp add: dropWhile_eq_drop)
      finally show ?thesis .
    qed
    have "exec_loop s i acc = exec_loop s (i + 7 + length ?cap) (acc @ [?cap])"
      using exec_loop_hit [of i s acc] i True "2.prems" by simp
    also have "\<dots> = Some ((acc @ [?cap]) @
                 scan (dropWhile (\<lambda>c. \<not> is_line_terminator c) (drop 7 (c # cs))))"
      using "2.IH"(1) [OF True d] .
    finally show ?thesis using True by simp
  next
    case False
    have "exec_loop s i acc = exec_loop s (Suc i) acc"
      using exec_loop_miss [of i s acc] i False "2.prems" by simp
    also have "drop (Suc i) s = cs"
      using "2.prems" by (metis drop_Suc tl_drop list.sel(3))
    then have "exec_loop s (Suc i) acc = Some (acc @ scan cs)"
      using "2.IH"(2) [OF False] by simp
    finally show ?thesis using False by simp
  qed
qed

lemma forEach_log_scan: "forEach_log logs acc = Some (acc @ concat (map scan logs))"
  by (induction logs arbitrary: acc) (simp_all add: exec_loop_scan)

text \<open>
  C5. For every log string, every starting \<^verbatim>\<open>lastIndex\<close> and every content of
  \<^verbatim>\<open>errors\<close>, the repeated \<^verbatim>\<open>regex.exec\<close> loop of \<^verbatim>\<open>getErrorForTransaction\<close> ends and
  returns a list.
\<close>

theorem exec_loop_terminates: "\<exists>errors'. exec_loop log lastIndex errors = Some errors'"
  using exec_loop_scan [of lastIndex log "drop lastIndex log" errors] by simp


subsection \<open>The loop and the lines of a log message\<close>

lemma split_lines_shape:
  "split_lines s =
     takeWhile not_lt s # (case dropWhile not_lt s of [] \<Rightarrow> [] | c # r \<Rightarrow> split_lines r)"
  by (induction s) (auto split: list.splits)

lemma after_first_error_hit: "after_first_error (js ''Error: '' @ cap) = Some cap"
proof -
  obtain c cs where e: "js ''Error: '' = c # cs"
    by (simp add: js_Error)
  have "take 7 (js ''Error: '' @ cap) = js ''Error: ''"
    by (simp add: length_js_Error)
  moreover have "drop 7 (js ''Error: '' @ cap) = cap"
    by (simp add: length_js_Error)
  ultimately show ?thesis
    using after_first_error.simps(2) [of c "cs @ cap"] e by simp
qed

lemma take7_prefix:
  assumes "take 7 (c # takeWhile not_lt cs) = js ''Error: ''"
  shows "take 7 (c # cs) = js ''Error: ''"
proof -
  have "length (take 7 (c # takeWhile not_lt cs)) = 7"
    using assms by (simp add: length_js_Error)
  then have len: "7 \<le> length (c # takeWhile not_lt cs)"
    by simp
  have "c # cs = (c # takeWhile not_lt cs) @ dropWhile not_lt cs"
    by simp
  then have "take 7 (c # cs) = take 7 ((c # takeWhile not_lt cs) @ dropWhile not_lt cs)"
    by simp
  also have "\<dots> = take 7 (c # takeWhile not_lt cs)"
    using len by (simp del: takeWhile_dropWhile_id)
  finally show ?thesis using assms by simp
qed

lemma map_filter_after_dropWhile:
  "List.map_filter after_first_error (split_lines (dropWhile not_lt t)) =
   List.map_filter after_first_error
     (case dropWhile not_lt t of [] \<Rightarrow> [] | c # r \<Rightarrow> split_lines r)"
proof (cases "dropWhile not_lt t")
  case Nil
  show ?thesis
    by (simp only: Nil split_lines.simps List.map_filter_simps after_first_error.simps
        list.case option.case)
next
  case (Cons l r)
  then have "is_line_terminator l"
    using hd_dropWhile [of not_lt t] by auto
  then have "split_lines (l # r) = [] # split_lines r"
    by simp
  then show ?thesis
    by (simp only: Cons List.map_filter_simps after_first_error.simps list.case option.case)
qed

lemma scan_spec: "scan s = spec_line_errors s"
  unfolding spec_line_errors_def
proof (induction s rule: scan.induct)
  case 1
  then show ?case by (simp add: List.map_filter_simps)
next
  case (2 c cs)
  show ?case
  proof (cases "take 7 (c # cs) = js ''Error: ''")
    case True
    define d where "d = drop 7 (c # cs)"
    have s: "c # cs = js ''Error: '' @ d"
      using True append_take_drop_id [of 7 "c # cs"] unfolding d_def by metis
    have tw: "takeWhile not_lt (c # cs) = js ''Error: '' @ takeWhile not_lt d"
      unfolding s by (rule takeWhile_append2) (use Error_no_line_terminator in blast)
    have dw: "dropWhile not_lt (c # cs) = dropWhile not_lt d"
      unfolding s by (rule dropWhile_append2) (use Error_no_line_terminator in blast)
    have "List.map_filter after_first_error (split_lines (c # cs)) =
          takeWhile not_lt d # List.map_filter after_first_error
             (case dropWhile not_lt d of [] \<Rightarrow> [] | c # r \<Rightarrow> split_lines r)"
      by (subst split_lines_shape)
        (simp only: tw dw List.map_filter_simps after_first_error_hit option.case)
    also have "\<dots> = takeWhile not_lt d #
                 List.map_filter after_first_error (split_lines (dropWhile not_lt d))"
      by (simp only: map_filter_after_dropWhile)
    also have "\<dots> = takeWhile not_lt d # scan (dropWhile not_lt d)"
      using "2.IH"(1) [OF True] unfolding d_def by simp
    finally show ?thesis using True unfolding d_def by simp
  next
    case False
    have "List.map_filter after_first_error (split_lines (c # cs)) =
          List.map_filter after_first_error (split_lines cs)"
    proof (cases "is_line_terminator c")
      case True
      then show ?thesis by (simp add: List.map_filter_simps)
    next
      case nlt: False
      obtain segs where sl: "split_lines cs = takeWhile not_lt cs # segs"
        using split_lines_shape [of cs] by blast
      have "take 7 (c # takeWhile not_lt cs) \<noteq> js ''Error: ''"
        using False take7_prefix by blast
      then show ?thesis using nlt sl by (simp add: List.map_filter_simps)
    qed
    then show ?thesis using False "2.IH"(2) by simp
  qed
qed

section \<open>Properties of \<^verbatim>\<open>getErrorForTransaction\<close>\<close>

lemma extract_errors_logs:
  "extract_errors (Some \<lparr>meta = Some \<lparr>logMessages = Some logs\<rparr>\<rparr>) =
     Some (concat (map spec_line_errors logs))"
proof -
  have "scan = spec_line_errors"
    by (rule ext) (rule scan_spec)
  then show ?thesis
    by (simp add: extract_errors_def forEach_log_scan)
qed

lemma extract_errors_returns: "extract_errors tx \<noteq> None"
  by (simp add: extract_errors_def forEach_log_scan split: option.split)

lemma getErrorForTransaction_returns: "getErrorForTransaction connection txid w \<noteq> None"
  by (simp add: getErrorForTransaction_def extract_errors_returns Let_def
      split: option.split sum.split prod.split)

lemma getErrorForTransaction_queries:
  assumes "confirmTransaction connection txid CommitmentMax w = (Inr confirmed, w1)"
    and "getParsedConfirmedTransaction connection txid w1 = (Inr tx, w2)"
  shows "getErrorForTransaction connection txid w =
           map_option (\<lambda>errors. (Inr errors, w2,
                [ConfirmTransaction txid CommitmentMax (Inr confirmed),
                 GetParsedConfirmedTransaction txid (Inr tx)]))
             (extract_errors tx)"
  using assms by (simp add: getErrorForTransaction_def Let_def split: option.split)

text \<open>
  C1, as stated, fails: in the log line \<^verbatim>\<open>Error: a Error: b\<close> the pattern occurs twice,
  and the extracted list has the single entry \<^verbatim>\<open>a Error: b\<close>; the greedy group has taken
  the second occurrence into the first.
\<close>

theorem extract_errors_merges_occurrences:
  "extract_errors (Some \<lparr>meta = Some \<lparr>logMessages = Some [js ''Error: a Error: b'']\<rparr>\<rparr>) =
     Some [js ''a Error: b''] \<and>
   spec_occurrences (js ''Error: a Error: b'') = 2"
  by code_simp

text \<open>
  C1, amended. When both queries of \<^verbatim>\<open>getErrorForTransaction\<close> succeed and the transaction
  has log messages, the extracted list has, in order, exactly one entry for every line
  of every log message (a message is cut into lines at its line terminators) in which
  \<^verbatim>\<open>Error: \<close> occurs: the text that follows the first \<^verbatim>\<open>Error: \<close> of that line, up to
  the end of the line.
\<close>

theorem getErrorForTransaction_line_errors:
  assumes "confirmTransaction connection txid CommitmentMax w = (Inr confirmed, w1)"
    and "getParsedConfirmedTransaction connection txid w1 =
           (Inr (Some \<lparr>meta = Some \<lparr>logMessages = Some logs\<rparr>\<rparr>), w2)"
  shows "getErrorForTransaction connection txid w =
           Some (Inr (concat (map spec_line_errors logs)), w2,
                 [ConfirmTransaction txid CommitmentMax (Inr confirmed),
                  GetParsedConfirmedTransaction txid
                    (Inr (Some \<lparr>meta = Some \<lparr>logMessages = Some logs\<rparr>\<rparr>))])"
  using getErrorForTransaction_queries [OF assms] by (simp add: extract_errors_logs)

theorem getErrorForTransaction_line_errors_witness:
  "map_option fst
     (getErrorForTransaction
        (example_connection (\<lambda>c. Inr failed_status)
           (Inr (Some \<lparr>meta = Some \<lparr>logMessages =
              Some [js ''Program log: Error: a Error: b'', js ''Program x failed'']\<rparr>\<rparr>)))
        (js ''txid-1'') ()) =
   Some (Inr [js ''a Error: b''])"
proof -
  have "concat (map spec_line_errors
          [js ''Program log: Error: a Error: b'', js ''Program x failed'']) =
        [js ''a Error: b'']"
    by code_simp
  then show ?thesis
    using getErrorForTransaction_line_errors
      [where connection = "example_connection (\<lambda>c. Inr failed_status)
             (Inr (Some \<lparr>meta = Some \<lparr>logMessages =
                Some [js ''Program log: Error: a Error: b'', js ''Program x failed'']\<rparr>\<rparr>))"
         and txid = "js ''txid-1''" and w = "()" and confirmed = failed_status and ?w1.0 = "()"
         and logs = "[js ''Program log: Error: a Error: b'', js ''Program x failed'']"
         and ?w2.0 = "()"]
    by (simp add: example_connection_def)
qed

text \<open>
  C10. When both queries succeed and the queried record is null, or its \<^verbatim>\<open>meta\<close> is
  null, or its \<^verbatim>\<open>logMessages\<close> are missing (that is, \<^verbatim>\<open>tx?.meta?.logMessages\<close> is
  nullish), \<^verbatim>\<open>getErrorForTransaction\<close> returns the empty list.
\<close>

theorem getErrorForTransaction_no_logs:
  assumes "confirmTransaction connection txid CommitmentMax w = (Inr confirmed, w1)"
    and "getParsedConfirmedTransaction connection txid w1 = (Inr tx, w2)"
    and "Option.bind (Option.bind tx meta) logMessages = None"
  shows "getErrorForTransaction connection txid w =
           Some (Inr [], w2, [ConfirmTransaction txid CommitmentMax (Inr confirmed),
                              GetParsedConfirmedTransaction txid (Inr tx)])"
proof -
  have "extract_errors tx = Some []"
    using assms(3)
    by (auto simp: extract_errors_def Option.bind_eq_None_conv split: option.splits)
  then show ?thesis
    using getErrorForTransaction_queries [OF assms(1,2)] by simp
qed

theorem getErrorForTransaction_no_logs_witness:
  "getErrorForTransaction
     (example_connection (\<lambda>c. Inr failed_status) (Inr (Some \<lparr>meta = None\<rparr>)))
     (js ''txid-1'') () =
   Some (Inr [], (),
         [ConfirmTransaction (js ''txid-1'') CommitmentMax (Inr failed_status),
          GetParsedConfirmedTransaction (js ''txid-1'') (Inr (Some \<lparr>meta = None\<rparr>))])"
  using getErrorForTransaction_no_logs
    [where connection =
        "example_connection (\<lambda>c. Inr failed_status) (Inr (Some \<lparr>meta = None\<rparr>))"
       and txid = "js ''txid-1''" and w = "()" and confirmed = failed_status and ?w1.0 = "()"
       and tx = "Some \<lparr>meta = None\<rparr>" and ?w2.0 = "()"]
  by (simp add: example_connection_def)

section \<open>Properties of \<^verbatim>\<open>sendTransaction\<close>\<close>

text \<open>
  C2. When the wallet is absent or has no public key (\<^verbatim>\<open>wallet?.publicKey\<close> is nullish),
  \<^verbatim>\<open>sendTransaction\<close> throws \<^verbatim>\<open>Wallet is not connected\<close>; no collaborator has been
  called and the outside world is as it was.
\<close>

theorem sendTransaction_no_publicKey:
  "Option.bind wallet wallet_publicKey = None \<Longrightarrow>
   sendTransaction connection wallet lib instrs signers awaitConfirmation w =
     Some (Inl (Thrown (js ''Wallet is not connected'')), w, [])"
  by (cases wallet) (auto simp: sendTransaction_def)

theorem sendTransaction_no_publicKey_witness:
  "sendTransaction (example_connection (\<lambda>c. Inr None) (Inr None))
     (Some (example_wallet\<lparr>wallet_publicKey := None\<rparr>)) example_lib [] [example_signer] True () =
   Some (Inl (Thrown (js ''Wallet is not connected'')), (), [])"
  using sendTransaction_no_publicKey
    [where wallet = "Some (example_wallet\<lparr>wallet_publicKey := None\<rparr>)"
       and connection = "example_connection (\<lambda>c. Inr None) (Inr None)"
       and lib = example_lib and instrs = "[]" and signers = "[example_signer]"
       and awaitConfirmation = True and w = "()"]
  by simp

subsection \<open>Submission, failures and signing\<close>

lemma fold_add:
  "fold (\<lambda>instruction t. add t instruction) instrs t =
     t\<lparr>tx_instructions := tx_instructions t @ instrs\<rparr>"
  by (induction instrs arbitrary: t) (simp_all add: add_def)

lemma assemble:
  "setSigners (fold (\<lambda>instruction t. add t instruction) instrs new_Transaction
                 \<lparr>recentBlockhash := Some bh\<rparr>) (pk # map publicKey signers) =
     Inr (assembled_transaction instrs bh pk signers)"
  by (simp add: setSigners_def fold_add new_Transaction_def assembled_transaction_def)

lemma set_unique_keys: "set (unique_keys seen ks) = set ks - set seen"
  by (induction ks arbitrary: seen) auto

lemma distinct_unique_keys: "distinct (unique_keys seen ks)"
  by (induction ks arbitrary: seen) (auto simp: set_unique_keys)

lemma subseq_unique_keys: "subseq (unique_keys seen ks) ks"
  by (induction ks arbitrary: seen) auto

lemma unique_keys_distinct:
  "distinct ks \<Longrightarrow> set ks \<inter> set seen = {} \<Longrightarrow> unique_keys seen ks = ks"
  by (induction ks arbitrary: seen) auto

lemma sendTransaction_submitted:
  "case sendTransaction connection wallet lib instrs signers awaitConfirmation w of
     Some (Inr txid, w', evs) \<Rightarrow>
       (\<exists>wa pk bh w1 partial_tx signed_tx w3 raw w5.
          wallet = Some wa \<and> wallet_publicKey wa = Some pk \<and>
          getRecentBlockhash connection CommitmentMax w = (Inr bh, w1) \<and>
          (if length signers > 0
           then partialSign lib (assembled_transaction instrs bh pk signers) signers
           else Inr (assembled_transaction instrs bh pk signers)) = Inr partial_tx \<and>
          signTransaction wa partial_tx w1 = (Inr signed_tx, w3) \<and>
          serialize lib signed_tx = Inr raw \<and>
          sendRawTransaction connection raw
            \<lparr>skipPreflight = True, commitment = CommitmentSingleGossip\<rparr> w3 = (Inr txid, w5) \<and>
          (if awaitConfirmation
           then \<exists>status. confirmTransaction connection txid CommitmentSingleGossip w5 =
                           (Inr status, w') \<and> \<not> status_err_truthy status
           else w' = w5))
   | _ \<Rightarrow> True"
  by (simp add: sendTransaction_def Let_def assemble getErrorForTransaction_returns
      split: option.split sum.split prod.split)


text \<open>
  C3. When \<^verbatim>\<open>sendTransaction\<close> returns, with or without awaiting the confirmation, the
  value returned is the transaction id that the connection's \<^verbatim>\<open>sendRawTransaction\<close>
  resolved to for the payload that \<^verbatim>\<open>serialize\<close> made of the transaction the wallet
  signed; the wallet had signed what the first signing step left of the assembled
  transaction. With the confirmation awaited, the status the connection then reported
  had no error.
\<close>

theorem sendTransaction_returns_submitted_txid:
  assumes "sendTransaction connection wallet lib instrs signers awaitConfirmation w =
             Some (Inr txid, w', evs)"
  shows "\<exists>wa pk bh w1 partial_tx signed_tx w3 raw w5.
           wallet = Some wa \<and> wallet_publicKey wa = Some pk \<and>
           getRecentBlockhash connection CommitmentMax w = (Inr bh, w1) \<and>
           (if length signers > 0
            then partialSign lib (assembled_transaction instrs bh pk signers) signers
            else Inr (assembled_transaction instrs bh pk signers)) = Inr partial_tx \<and>
           signTransaction wa partial_tx w1 = (Inr signed_tx, w3) \<and>
           serialize lib signed_tx = Inr raw \<and>
           sendRawTransaction connection raw
             \<lparr>skipPreflight = True, commitment = CommitmentSingleGossip\<rparr> w3 = (Inr txid, w5) \<and>
           (if awaitConfirmation
            then \<exists>status. confirmTransaction connection txid CommitmentSingleGossip w5 =
                            (Inr status, w') \<and> \<not> status_err_truthy status
            else w' = w5)"
  using sendTransaction_submitted
    [where connection = connection and wallet = wallet and lib = lib and instrs = instrs
       and signers = signers and awaitConfirmation = awaitConfirmation and w = w]
    assms
  by simp

lemma example_success:
  "sendTransaction (example_connection (\<lambda>c. Inr (Some \<lparr>err = None\<rparr>)) (Inr None))
     (Some example_wallet) example_lib [example_instruction] [] True () =
   Some (Inr (js ''txid-1''), (),
     [GetRecentBlockhash CommitmentMax (Inr (js ''blockhash-1'')),
      SignTransaction
        \<lparr>tx_instructions = [example_instruction], recentBlockhash = Some (js ''blockhash-1''),
         signerKeys = [[1, 2, 3]]\<rparr>
        (Inr \<lparr>tx_instructions = [example_instruction],
              recentBlockhash = Some (js ''blockhash-1''), signerKeys = [[1, 2, 3]]\<rparr>),
      Serialize
        \<lparr>tx_instructions = [example_instruction], recentBlockhash = Some (js ''blockhash-1''),
         signerKeys = [[1, 2, 3]]\<rparr>
        (Inr [7]),
      SendRawTransaction [7] \<lparr>skipPreflight = True, commitment = CommitmentSingleGossip\<rparr>
        (Inr (js ''txid-1'')),
      ConfirmTransaction (js ''txid-1'') CommitmentSingleGossip (Inr (Some \<lparr>err = None\<rparr>))])"
  by code_simp

theorem sendTransaction_returns_submitted_txid_witness:
  "map_option fst
     (sendTransaction (example_connection (\<lambda>c. Inr (Some \<lparr>err = None\<rparr>)) (Inr None))
        (Some example_wallet) example_lib [example_instruction] [] True ()) =
     Some (Inr (js ''txid-1'')) \<and>
   (\<exists>signed_tx raw.
      serialize example_lib signed_tx = Inr raw \<and>
      sendRawTransaction (example_connection (\<lambda>c. Inr (Some \<lparr>err = None\<rparr>)) (Inr None)) raw
        \<lparr>skipPreflight = True, commitment = CommitmentSingleGossip\<rparr> () =
        (Inr (js ''txid-1''), ()))"
  using sendTransaction_returns_submitted_txid [OF example_success] example_success
  by auto

lemma failure_message_contains:
  "sublist txid (failure_message lib txid status)"
  "sublist (JSON_stringify lib status) (failure_message lib txid status)"
proof -
  show "sublist txid (failure_message lib txid status)"
    unfolding failure_message_def sublist_def by blast
  have "failure_message lib txid status =
          (js ''Raw transaction '' @ txid @ js '' failed ('') @
          JSON_stringify lib status @ js '')''"
    by (simp add: failure_message_def)
  then show "sublist (JSON_stringify lib status) (failure_message lib txid status)"
    unfolding sublist_def by blast
qed

lemma sendTransaction_failed_confirmation:
  assumes "wallet = Some wa" "wallet_publicKey wa = Some pk"
    and "getRecentBlockhash connection CommitmentMax w = (Inr bh, w1)"
    and "(if length signers > 0
          then partialSign lib (assembled_transaction instrs bh pk signers) signers
          else Inr (assembled_transaction instrs bh pk signers)) = Inr partial_tx"
    and "signTransaction wa partial_tx w1 = (Inr signed_tx, w3)"
    and "serialize lib signed_tx = Inr raw"
    and "sendRawTransaction connection raw
           \<lparr>skipPreflight = True, commitment = CommitmentSingleGossip\<rparr> w3 = (Inr txid, w5)"
    and "confirmTransaction connection txid CommitmentSingleGossip w5 = (Inr status, w6)"
    and "status_err_truthy status"
  shows "(\<exists>f w' evs.
            sendTransaction connection wallet lib instrs signers True w = Some (Inl f, w', evs)) \<and>
         (\<forall>confirmed w7 tx w8.
            confirmTransaction connection txid CommitmentMax w6 = (Inr confirmed, w7) \<and>
            getParsedConfirmedTransaction connection txid w7 = (Inr tx, w8) \<longrightarrow>
            (\<exists>evs. sendTransaction connection wallet lib instrs signers True w =
                     Some (Inl (Thrown (failure_message lib txid status)), w8, evs)))"
  using assms
  by (simp add: sendTransaction_def getErrorForTransaction_def Let_def assemble
      extract_errors_returns split: option.split sum.split prod.split if_split_asm)

lemma sendTransaction_thrown:
  "case sendTransaction connection wallet lib instrs signers awaitConfirmation w of
     Some (Inl (Thrown m), w', evs) \<Rightarrow>
       (Option.bind wallet wallet_publicKey = None \<and> m = js ''Wallet is not connected'') \<or>
       (awaitConfirmation \<and>
        (\<exists>wa pk bh w1 partial_tx signed_tx w3 raw txid w5 status w6 confirmed w7 tx.
           wallet = Some wa \<and> wallet_publicKey wa = Some pk \<and>
           getRecentBlockhash connection CommitmentMax w = (Inr bh, w1) \<and>
           (if length signers > 0
            then partialSign lib (assembled_transaction instrs bh pk signers) signers
            else Inr (assembled_transaction instrs bh pk signers)) = Inr partial_tx \<and>
           signTransaction wa partial_tx w1 = (Inr signed_tx, w3) \<and>
           serialize lib signed_tx = Inr raw \<and>
           sendRawTransaction connection raw
             \<lparr>skipPreflight = True, commitment = CommitmentSingleGossip\<rparr> w3 = (Inr txid, w5) \<and>
           confirmTransaction connection txid CommitmentSingleGossip w5 = (Inr status, w6) \<and>
           status_err_truthy status \<and>
           confirmTransaction connection txid CommitmentMax w6 = (Inr confirmed, w7) \<and>
           getParsedConfirmedTransaction connection txid w7 = (Inr tx, w') \<and>
           m = failure_message lib txid status))
   | _ \<Rightarrow> True"
  by (simp add: sendTransaction_def getErrorForTransaction_def Let_def assemble
      extract_errors_returns split: option.split sum.split prod.split failure.split)

text \<open>
  C4, as stated, fails: the confirmation reports an error, the follow-up query
  \<^verbatim>\<open>confirmTransaction(txid, 'max')\<close> of \<^verbatim>\<open>getErrorForTransaction\<close> is rejected with
  \<^verbatim>\<open>timeout\<close>, and \<^verbatim>\<open>sendTransaction\<close> fails with that rejection, whose message holds
  neither the transaction id nor the status.
\<close>

theorem sendTransaction_log_query_failure_propagates:
  "sendTransaction
     (example_connection
        (\<lambda>c. if c = CommitmentMax then Inl (js ''timeout'') else Inr failed_status) (Inr None))
     (Some example_wallet) example_lib [] [] True () =
   Some (Inl (Rejected (js ''timeout'')), (),
     [GetRecentBlockhash CommitmentMax (Inr (js ''blockhash-1'')),
      SignTransaction
        \<lparr>tx_instructions = [], recentBlockhash = Some (js ''blockhash-1''),
         signerKeys = [[1, 2, 3]]\<rparr>
        (Inr \<lparr>tx_instructions = [], recentBlockhash = Some (js ''blockhash-1''),
              signerKeys = [[1, 2, 3]]\<rparr>),
      Serialize
        \<lparr>tx_instructions = [], recentBlockhash = Some (js ''blockhash-1''),
         signerKeys = [[1, 2, 3]]\<rparr>
        (Inr [7]),
      SendRawTransaction [7] \<lparr>skipPreflight = True, commitment = CommitmentSingleGossip\<rparr>
        (Inr (js ''txid-1'')),
      ConfirmTransaction (js ''txid-1'') CommitmentSingleGossip (Inr failed_status),
      ConfirmTransaction (js ''txid-1'') CommitmentMax (Inl (js ''timeout''))]) \<and>
   status_err_truthy failed_status \<and>
   \<not> sublist (js ''txid-1'') (js ''timeout'') \<and>
   \<not> sublist (JSON_stringify example_lib failed_status) (js ''timeout'')"
  by code_simp

text \<open>
  C4, amended. Let the collaborators answer a call of \<^verbatim>\<open>sendTransaction\<close> with
  \<^verbatim>\<open>awaitConfirmation\<close> true up to the submission, and let the connection then report a
  status with an error. Then the call fails; and if the two follow-up queries of
  \<^verbatim>\<open>getErrorForTransaction\<close> succeed, it fails with the error it throws itself, whose
  message contains the transaction id and the serialized raw status. If no public key is
  present, the call instead throws synchronously: \<^verbatim>\<open>Wallet is not connected\<close>, with no
  collaborator called before and the outside world as it was. These are the only two
  errors the function throws of its own accord: whenever it ends with one, either no
  public key was present, or the confirmation was awaited and the connection had
  reported that status for the id the submission resolved to.
\<close>

theorem sendTransaction_failures:
  "(awaitConfirmation \<and>
    wallet = Some wa \<and> wallet_publicKey wa = Some pk \<and>
    getRecentBlockhash connection CommitmentMax w = (Inr bh, w1) \<and>
    (if length signers > 0
     then partialSign lib (assembled_transaction instrs bh pk signers) signers
     else Inr (assembled_transaction instrs bh pk signers)) = Inr partial_tx \<and>
    signTransaction wa partial_tx w1 = (Inr signed_tx, w3) \<and>
    serialize lib signed_tx = Inr raw \<and>
    sendRawTransaction connection raw
      \<lparr>skipPreflight = True, commitment = CommitmentSingleGossip\<rparr> w3 = (Inr txid, w5) \<and>
    confirmTransaction connection txid CommitmentSingleGossip w5 = (Inr status, w6) \<and>
    status_err_truthy status \<longrightarrow>
      (\<exists>f w' evs.
         sendTransaction connection wallet lib instrs signers awaitConfirmation w =
           Some (Inl f, w', evs)) \<and>
      (confirmTransaction connection txid CommitmentMax w6 = (Inr confirmed, w7) \<and>
       getParsedConfirmedTransaction connection txid w7 = (Inr tx, w8) \<longrightarrow>
         (\<exists>evs. sendTransaction connection wallet lib instrs signers awaitConfirmation w =
                  Some (Inl (Thrown (failure_message lib txid status)), w8, evs)) \<and>
         sublist txid (failure_message lib txid status) \<and>
         sublist (JSON_stringify lib status) (failure_message lib txid status))) \<and>
   (Option.bind wallet wallet_publicKey = None \<longrightarrow>
      sendTransaction connection wallet lib instrs signers awaitConfirmation w =
        Some (Inl (Thrown (js ''Wallet is not connected'')), w, [])) \<and>
   (sendTransaction connection wallet lib instrs signers awaitConfirmation w =
      Some (Inl (Thrown m), wt, evt) \<longrightarrow>
      (Option.bind wallet wallet_publicKey = None \<and> m = js ''Wallet is not connected'') \<or>
      (awaitConfirmation \<and>
       (\<exists>wa pk bh w1 partial_tx signed_tx w3 raw txid w5 status w6 confirmed w7 tx.
           wallet = Some wa \<and> wallet_publicKey wa = Some pk \<and>
           getRecentBlockhash connection CommitmentMax w = (Inr bh, w1) \<and>
           (if length signers > 0
            then partialSign lib (assembled_transaction instrs bh pk signers) signers
            else Inr (assembled_transaction instrs bh pk signers)) = Inr partial_tx \<and>
           signTransaction wa partial_tx w1 = (Inr signed_tx, w3) \<and>
           serialize lib signed_tx = Inr raw \<and>
           sendRawTransaction connection raw
             \<lparr>skipPreflight = True, commitment = CommitmentSingleGossip\<rparr> w3 = (Inr txid, w5) \<and>
           confirmTransaction connection txid CommitmentSingleGossip w5 = (Inr status, w6) \<and>
           status_err_truthy status \<and>
           confirmTransaction connection txid CommitmentMax w6 = (Inr confirmed, w7) \<and>
           getParsedConfirmedTransaction connection txid w7 = (Inr tx, wt) \<and>
           m = failure_message lib txid status)))"
proof (intro conjI impI)
  assume a: "awaitConfirmation \<and>
    wallet = Some wa \<and> wallet_publicKey wa = Some pk \<and>
    getRecentBlockhash connection CommitmentMax w = (Inr bh, w1) \<and>
    (if length signers > 0
     then partialSign lib (assembled_transaction instrs bh pk signers) signers
     else Inr (assembled_transaction instrs bh pk signers)) = Inr partial_tx \<and>
    signTransaction wa partial_tx w1 = (Inr signed_tx, w3) \<and>
    serialize lib signed_tx = Inr raw \<and>
    sendRawTransaction connection raw
      \<lparr>skipPreflight = True, commitment = CommitmentSingleGossip\<rparr> w3 = (Inr txid, w5) \<and>
    confirmTransaction connection txid CommitmentSingleGossip w5 = (Inr status, w6) \<and>
    status_err_truthy status"
  then have t: "awaitConfirmation = True"
    by simp
  note fc = sendTransaction_failed_confirmation
    [where wallet = wallet and wa = wa and pk = pk and connection = connection and w = w
       and bh = bh and ?w1.0 = w1 and signers = signers and lib = lib and instrs = instrs
       and partial_tx = partial_tx and signed_tx = signed_tx and ?w3.0 = w3 and raw = raw
       and txid = txid and ?w5.0 = w5 and status = status and ?w6.0 = w6]
  from a show "\<exists>f w' evs.
      sendTransaction connection wallet lib instrs signers awaitConfirmation w =
        Some (Inl f, w', evs)"
    unfolding t using fc by blast
  assume q: "confirmTransaction connection txid CommitmentMax w6 = (Inr confirmed, w7) \<and>
             getParsedConfirmedTransaction connection txid w7 = (Inr tx, w8)"
  from a q show "\<exists>evs. sendTransaction connection wallet lib instrs signers awaitConfirmation w =
      Some (Inl (Thrown (failure_message lib txid status)), w8, evs)"
    unfolding t using fc by blast
  show "sublist txid (failure_message lib txid status)"
    by (rule failure_message_contains)
  show "sublist (JSON_stringify lib status) (failure_message lib txid status)"
    by (rule failure_message_contains)
next
  assume "Option.bind wallet wallet_publicKey = None"
  then show "sendTransaction connection wallet lib instrs signers awaitConfirmation w =
      Some (Inl (Thrown (js ''Wallet is not connected'')), w, [])"
    by (cases wallet) (auto simp: sendTransaction_def)
next
  assume "sendTransaction connection wallet lib instrs signers awaitConfirmation w =
      Some (Inl (Thrown m), wt, evt)"
  then show "(Option.bind wallet wallet_publicKey = None \<and> m = js ''Wallet is not connected'') \<or>
      (awaitConfirmation \<and>
       (\<exists>wa pk bh w1 partial_tx signed_tx w3 raw txid w5 status w6 confirmed w7 tx.
           wallet = Some wa \<and> wallet_publicKey wa = Some pk \<and>
           getRecentBlockhash connection CommitmentMax w = (Inr bh, w1) \<and>
           (if length signers > 0
            then partialSign lib (assembled_transaction instrs bh pk signers) signers
            else Inr (assembled_transaction instrs bh pk signers)) = Inr partial_tx \<and>
           signTransaction wa partial_tx w1 = (Inr signed_tx, w3) \<and>
           serialize lib signed_tx = Inr raw \<and>
           sendRawTransaction connection raw
             \<lparr>skipPreflight = True, commitment = CommitmentSingleGossip\<rparr> w3 = (Inr txid, w5) \<and>
           confirmTransaction connection txid CommitmentSingleGossip w5 = (Inr status, w6) \<and>
           status_err_truthy status \<and>
           confirmTransaction connection txid CommitmentMax w6 = (Inr confirmed, w7) \<and>
           getParsedConfirmedTransaction connection txid w7 = (Inr tx, wt) \<and>
           m = failure_message lib txid status))"
    using sendTransaction_thrown
      [where connection = connection and wallet = wallet and lib = lib and instrs = instrs
         and signers = signers and awaitConfirmation = awaitConfirmation and w = w]
    by simp
qed

theorem sendTransaction_failures_witness:
  "(\<exists>evs.
      sendTransaction
        (example_connection (\<lambda>c. Inr failed_status)
           (Inr (Some \<lparr>meta = Some \<lparr>logMessages = Some [js ''Program log: Error: custom'']\<rparr>\<rparr>)))
        (Some example_wallet) example_lib [example_instruction] [] True () =
      Some (Inl (Thrown (failure_message example_lib (js ''txid-1'') failed_status)), (), evs)) \<and>
   status_err_truthy failed_status \<and>
   failure_message example_lib (js ''txid-1'') failed_status =
     js ''Raw transaction txid-1 failed ({err})'' \<and>
   sublist (js ''txid-1'') (failure_message example_lib (js ''txid-1'') failed_status) \<and>
   sublist (JSON_stringify example_lib failed_status)
     (failure_message example_lib (js ''txid-1'') failed_status)"
proof -
  have t: "status_err_truthy failed_status"
    by (simp add: status_err_truthy_def failed_status_def)
  have m: "failure_message example_lib (js ''txid-1'') failed_status =
             js ''Raw transaction txid-1 failed ({err})''"
    by code_simp
  show ?thesis
    using t m
      sendTransaction_failures
        [where awaitConfirmation = True and wallet = "Some example_wallet"
           and wa = example_wallet and pk = "[1, 2, 3]"
           and connection = "example_connection (\<lambda>c. Inr failed_status)
             (Inr (Some \<lparr>meta = Some \<lparr>logMessages =
                Some [js ''Program log: Error: custom'']\<rparr>\<rparr>))"
           and w = "()" and bh = "js ''blockhash-1''" and ?w1.0 = "()"
           and signers = "[]" and lib = example_lib and instrs = "[example_instruction]"
           and partial_tx = "assembled_transaction [example_instruction] (js ''blockhash-1'')
                               [1, 2, 3] []"
           and signed_tx = "assembled_transaction [example_instruction] (js ''blockhash-1'')
                              [1, 2, 3] []"
           and ?w3.0 = "()" and raw = "[7]" and txid = "js ''txid-1''" and ?w5.0 = "()"
           and status = failed_status and ?w6.0 = "()" and confirmed = failed_status
           and ?w7.0 = "()"
           and tx = "Some \<lparr>meta = Some \<lparr>logMessages =
                        Some [js ''Program log: Error: custom'']\<rparr>\<rparr>"
           and ?w8.0 = "()"]
    by (simp add: example_connection_def example_wallet_def example_lib_def)
qed

lemma sendTransaction_first_signing:
  assumes "wallet = Some wa" "wallet_publicKey wa = Some pk"
    and "getRecentBlockhash connection CommitmentMax w = (Inr bh, w1)"
  shows "case sendTransaction connection wallet lib instrs signers awaitConfirmation w of
           None \<Rightarrow> False
         | Some (r, w', evs) \<Rightarrow>
             take 2 evs =
               [GetRecentBlockhash CommitmentMax (Inr bh),
                if length signers > 0
                then PartialSign (assembled_transaction instrs bh pk signers) signers
                       (partialSign lib (assembled_transaction instrs bh pk signers) signers)
                else SignTransaction (assembled_transaction instrs bh pk signers)
                       (fst (signTransaction wa (assembled_transaction instrs bh pk signers) w1))] \<and>
             (\<forall>e. (if length signers > 0
                   then partialSign lib (assembled_transaction instrs bh pk signers) signers
                   else fst (signTransaction wa (assembled_transaction instrs bh pk signers) w1)) =
                  Inl e \<longrightarrow> r = Inl (Rejected e))"
  using assms
  by (simp add: sendTransaction_def Let_def assemble getErrorForTransaction_returns
      split: option.split sum.split prod.split)

lemma take_two: "take 2 evs = [a, b] \<Longrightarrow> \<exists>rest. evs = a # b # rest"
  by (cases evs; cases "tl evs") auto

text \<open>
  C6, as stated, fails: with the same additional signer given twice the signer list of
  the assembled transaction has the wallet's key and the signer's key once, not the
  wallet's key followed by the keys of the additional signers as given.
\<close>

theorem sendTransaction_drops_repeated_signer:
  "sendTransaction (example_connection (\<lambda>c. Inr (Some \<lparr>err = None\<rparr>)) (Inr None))
     (Some example_wallet) example_lib [example_instruction] [example_signer, example_signer]
     False () =
   Some (Inr (js ''txid-1''), (),
     [GetRecentBlockhash CommitmentMax (Inr (js ''blockhash-1'')),
      PartialSign
        \<lparr>tx_instructions = [example_instruction], recentBlockhash = Some (js ''blockhash-1''),
         signerKeys = [[1, 2, 3], [9]]\<rparr>
        [example_signer, example_signer]
        (Inr \<lparr>tx_instructions = [example_instruction],
              recentBlockhash = Some (js ''blockhash-1''), signerKeys = [[1, 2, 3], [9]]\<rparr>),
      SignTransaction
        \<lparr>tx_instructions = [example_instruction], recentBlockhash = Some (js ''blockhash-1''),
         signerKeys = [[1, 2, 3], [9]]\<rparr>
        (Inr \<lparr>tx_instructions = [example_instruction],
              recentBlockhash = Some (js ''blockhash-1''), signerKeys = [[1, 2, 3], [9]]\<rparr>),
      Serialize
        \<lparr>tx_instructions = [example_instruction], recentBlockhash = Some (js ''blockhash-1''),
         signerKeys = [[1, 2, 3], [9]]\<rparr>
        (Inr [7]),
      SendRawTransaction [7] \<lparr>skipPreflight = True, commitment = CommitmentSingleGossip\<rparr>
        (Inr (js ''txid-1''))]) \<and>
   [1, 2, 3] # map publicKey [example_signer, example_signer] = [[1, 2, 3], [9], [9]]"
  by code_simp

text \<open>
  C6, amended. In every call of \<^verbatim>\<open>sendTransaction\<close> with a public key whose block hash
  request succeeds, the first call made is that request, and the next one is the first
  signing step (\<^verbatim>\<open>partialSign\<close> if there are additional signers, the wallet otherwise),
  whose failure is the failure of the call. The transaction it receives has the given
  instructions and the block hash just fetched, and its signer list places the wallet's
  public key first, followed by the public keys of the additional signers in their
  given order, each key once: a key that repeats the wallet's or an earlier signer's is
  dropped. Where no key repeats, the list is the wallet's key followed by the signers'
  keys as given.
\<close>

theorem sendTransaction_assembles_before_signing:
  assumes "wallet = Some wa" and "wallet_publicKey wa = Some pk"
    and "getRecentBlockhash connection CommitmentMax w = (Inr bh, w1)"
  shows "\<exists>ks r w' rest.
           ks = unique_keys [] (pk # map publicKey signers) \<and>
           hd ks = pk \<and> distinct ks \<and> set ks = set (pk # map publicKey signers) \<and>
           subseq ks (pk # map publicKey signers) \<and>
           (distinct (pk # map publicKey signers) \<longrightarrow> ks = pk # map publicKey signers) \<and>
           sendTransaction connection wallet lib instrs signers awaitConfirmation w =
             Some (r, w',
               GetRecentBlockhash CommitmentMax (Inr bh) #
               (if length signers > 0
                then PartialSign
                       \<lparr>tx_instructions = instrs, recentBlockhash = Some bh, signerKeys = ks\<rparr>
                       signers
                       (partialSign lib
                          \<lparr>tx_instructions = instrs, recentBlockhash = Some bh, signerKeys = ks\<rparr>
                          signers)
                else SignTransaction
                       \<lparr>tx_instructions = instrs, recentBlockhash = Some bh, signerKeys = ks\<rparr>
                       (fst (signTransaction wa
                          \<lparr>tx_instructions = instrs, recentBlockhash = Some bh, signerKeys = ks\<rparr>
                          w1))) #
               rest) \<and>
           (\<forall>e. (if length signers > 0
                 then partialSign lib
                        \<lparr>tx_instructions = instrs, recentBlockhash = Some bh, signerKeys = ks\<rparr>
                        signers
                 else fst (signTransaction wa
                        \<lparr>tx_instructions = instrs, recentBlockhash = Some bh, signerKeys = ks\<rparr>
                        w1)) = Inl e \<longrightarrow>
                r = Inl (Rejected e))"
proof -
  let ?ks = "unique_keys [] (pk # map publicKey signers)"
  have a: "assembled_transaction instrs bh pk signers =
             \<lparr>tx_instructions = instrs, recentBlockhash = Some bh, signerKeys = ?ks\<rparr>"
    by (simp add: assembled_transaction_def)
  have k1: "hd ?ks = pk"
    by simp
  have k2: "distinct ?ks"
    by (rule distinct_unique_keys)
  have k3: "set ?ks = set (pk # map publicKey signers)"
    by (simp only: set_unique_keys) simp
  have k4: "subseq ?ks (pk # map publicKey signers)"
    by (rule subseq_unique_keys)
  have k5: "distinct (pk # map publicKey signers) \<longrightarrow> ?ks = pk # map publicKey signers"
    using unique_keys_distinct [of "pk # map publicKey signers" "[]"] by simp
  obtain r w' evs where
    run: "sendTransaction connection wallet lib instrs signers awaitConfirmation w =
            Some (r, w', evs)"
    using sendTransaction_first_signing
      [OF assms, where lib = lib and instrs = instrs and signers = signers
         and awaitConfirmation = awaitConfirmation]
    by (auto split: option.splits)
  note shape = sendTransaction_first_signing
    [OF assms, where lib = lib and instrs = instrs and signers = signers
       and awaitConfirmation = awaitConfirmation, unfolded run a, simplified]
  from shape obtain rest where
    "evs = GetRecentBlockhash CommitmentMax (Inr bh) #
       (if length signers > 0
        then PartialSign
               \<lparr>tx_instructions = instrs, recentBlockhash = Some bh, signerKeys = ?ks\<rparr> signers
               (partialSign lib
                  \<lparr>tx_instructions = instrs, recentBlockhash = Some bh, signerKeys = ?ks\<rparr>
                  signers)
        else SignTransaction
               \<lparr>tx_instructions = instrs, recentBlockhash = Some bh, signerKeys = ?ks\<rparr>
               (fst (signTransaction wa
                  \<lparr>tx_instructions = instrs, recentBlockhash = Some bh, signerKeys = ?ks\<rparr>
                  w1))) # rest"
    using take_two [of evs] by (auto split: if_splits)
  then show ?thesis
    using run shape k1 k2 k3 k4 k5 by (auto split: if_splits)
qed

theorem sendTransaction_assembles_before_signing_witness:
  "\<exists>r w' rest.
     sendTransaction (example_connection (\<lambda>c. Inr (Some \<lparr>err = None\<rparr>)) (Inr None))
       (Some example_wallet) example_lib [example_instruction] [example_signer] True () =
       Some (r, w',
         GetRecentBlockhash CommitmentMax (Inr (js ''blockhash-1'')) #
         PartialSign
           \<lparr>tx_instructions = [example_instruction], recentBlockhash = Some (js ''blockhash-1''),
            signerKeys = [[1, 2, 3], [9]]\<rparr>
           [example_signer]
           (Inr \<lparr>tx_instructions = [example_instruction],
                 recentBlockhash = Some (js ''blockhash-1''), signerKeys = [[1, 2, 3], [9]]\<rparr>) #
         rest)"
  using sendTransaction_assembles_before_signing
    [where wallet = "Some example_wallet" and wa = example_wallet and pk = "[1, 2, 3]"
       and connection = "example_connection (\<lambda>c. Inr (Some \<lparr>err = None\<rparr>)) (Inr None)"
       and w = "()" and bh = "js ''blockhash-1''" and ?w1.0 = "()" and lib = example_lib
       and instrs = "[example_instruction]" and signers = "[example_signer]"
       and awaitConfirmation = True]
  by (simp add: example_wallet_def example_connection_def example_signer_def example_lib_def)

section \<open>Properties of the provider\<close>

lemmas provider_defs =
  SolanaConnectionConfigProvider_def useMemo_def effect_cleanup_def effect_run_def
  account_effect_def slot_effect_def new_Connection_def new_Account_def onAccountChange_def
  onSlotChange_def removeAccountChangeListener_def removeSlotChangeListener_def

lemma first_render_inv:
  "SolanaConnectionConfigProvider v capi endpoint (unmounted v capi) = (cfg, st) \<Longrightarrow>
   provider_inv cfg st"
  by (auto simp: provider_defs unmounted_def module_runtime_def provider_inv_def Let_def)

lemma same_endpoint:
  assumes "provider_inv old st" "endpoint = config_endpointUrl old"
  shows "SolanaConnectionConfigProvider v capi endpoint st =
           (old\<lparr>config_network :=
                  config_network (fst (SolanaConnectionConfigProvider v capi endpoint st))\<rparr>,
            st)"
  using assms
  by (auto simp: provider_defs provider_inv_def Let_def)

lemma switch_endpoint:
  assumes inv: "provider_inv old st"
    and neq: "endpoint \<noteq> config_endpointUrl old"
    and step: "SolanaConnectionConfigProvider v capi endpoint st = (new, st')"
  shows "provider_inv new st'"
    and "objects (runtime st) (config_connection new) = None"
    and "objects (runtime st) (config_sendConnection new) = None"
    and "config_connection new \<noteq> config_sendConnection new"
    and "map_option rpcEndpoint (objects (runtime st') (config_connection new)) = Some endpoint"
    and "map_option rpcEndpoint (objects (runtime st') (config_sendConnection new)) =
           Some endpoint"
    and "account_subscriptions (runtime st') (config_connection old) = []"
    and "slot_subscriptions (runtime st') (config_connection old) = []"
    and "account_subscriptions (runtime st') (config_sendConnection old) = []"
    and "slot_subscriptions (runtime st') (config_sendConnection old) = []"
  using assms
  by (auto simp: provider_defs provider_inv_def Let_def account_subscriptions_def
      slot_subscriptions_def)

lemma inv_subscriptions:
  assumes "provider_inv cfg st"
  shows "(\<exists>i k. account_subscriptions (runtime st) (config_connection cfg) =
                  [(i, k, Callback_undefined)]) \<and>
         (\<exists>j. slot_subscriptions (runtime st) (config_connection cfg) =
                  [(j, Callback_null)]) \<and>
         (\<exists>i k. account_subscriptions (runtime st) (config_sendConnection cfg) =
                  [(i, k, Callback_undefined)]) \<and>
         (\<exists>j. slot_subscriptions (runtime st) (config_sendConnection cfg) =
                  [(j, Callback_null)])"
  using assms
  by (auto simp: provider_inv_def Let_def account_subscriptions_def slot_subscriptions_def)

lemma render_preserves_inv:
  assumes "provider_inv old st"
    and "SolanaConnectionConfigProvider v capi endpoint st = (new, st')"
  shows "provider_inv new st'"
proof (cases "endpoint = config_endpointUrl old")
  case True
  have "new = old\<lparr>config_network := config_network new\<rparr> \<and> st' = st"
    using same_endpoint [OF assms(1) True, of v capi] assms(2) by simp
  then have "provider_inv new st' =
             provider_inv (old\<lparr>config_network := config_network new\<rparr>) st"
    by simp
  also have "\<dots> = provider_inv old st"
    by (simp add: provider_inv_def)
  finally show ?thesis using assms(1) by simp
next
  case False
  then show ?thesis using switch_endpoint(1) [OF assms(1) False assms(2)] by simp
qed

lemma after_renders_inv:
  "after_renders v capi endpoint0 endpoints = (cfg, st) \<Longrightarrow> provider_inv cfg st"
proof (induction endpoints arbitrary: cfg st rule: rev_induct)
  case Nil
  then show ?case by (simp add: after_renders_def first_render_inv)
next
  case (snoc e es)
  obtain cfg0 st0 where prev: "after_renders v capi endpoint0 es = (cfg0, st0)"
    by (cases "after_renders v capi endpoint0 es")
  have "SolanaConnectionConfigProvider v capi e st0 = (cfg, st)"
    using snoc.prems prev by (simp add: after_renders_def)
  then show ?case using render_preserves_inv [OF snoc.IH [OF prev]] by simp
qed

lemma config_endpointUrl_render:
  "config_endpointUrl (fst (SolanaConnectionConfigProvider v capi endpoint st)) = endpoint"
  by (simp add: SolanaConnectionConfigProvider_def Let_def split: prod.split)

text \<open>
  C8. Let the provider have rendered any number of times, and let the next render come
  with an endpoint other than the current one. Then both handles of the new context
  value are objects that did not exist before, distinct from each other and constructed
  for the new endpoint; each of them has exactly one account-change subscription and
  exactly one slot-change subscription, with the no-op callbacks; and the two replaced
  handles, which had exactly one subscription of each kind, have none left.
\<close>

theorem endpoint_switch_recreates_connections:
  assumes "after_renders v capi endpoint0 endpoints = (old, st)"
    and "endpoint \<noteq> config_endpointUrl old"
    and "SolanaConnectionConfigProvider v capi endpoint st = (new, st')"
  shows "objects (runtime st) (config_connection new) = None \<and>
         objects (runtime st) (config_sendConnection new) = None \<and>
         config_connection new \<noteq> config_sendConnection new \<and>
         map_option rpcEndpoint (objects (runtime st') (config_connection new)) = Some endpoint \<and>
         map_option rpcEndpoint (objects (runtime st') (config_sendConnection new)) =
           Some endpoint \<and>
         (\<exists>i k. account_subscriptions (runtime st') (config_connection new) =
                  [(i, k, Callback_undefined)]) \<and>
         (\<exists>j. slot_subscriptions (runtime st') (config_connection new) =
                  [(j, Callback_null)]) \<and>
         (\<exists>i k. account_subscriptions (runtime st') (config_sendConnection new) =
                  [(i, k, Callback_undefined)]) \<and>
         (\<exists>j. slot_subscriptions (runtime st') (config_sendConnection new) =
                  [(j, Callback_null)]) \<and>
         (\<exists>i k. account_subscriptions (runtime st) (config_connection old) =
                  [(i, k, Callback_undefined)]) \<and>
         (\<exists>j. slot_subscriptions (runtime st) (config_connection old) =
                  [(j, Callback_null)]) \<and>
         (\<exists>i k. account_subscriptions (runtime st) (config_sendConnection old) =
                  [(i, k, Callback_undefined)]) \<and>
         (\<exists>j. slot_subscriptions (runtime st) (config_sendConnection old) =
                  [(j, Callback_null)]) \<and>
         account_subscriptions (runtime st') (config_connection old) = [] \<and>
         slot_subscriptions (runtime st') (config_connection old) = [] \<and>
         account_subscriptions (runtime st') (config_sendConnection old) = [] \<and>
         slot_subscriptions (runtime st') (config_sendConnection old) = []"
proof -
  have old: "provider_inv old st"
    using after_renders_inv [OF assms(1)] .
  have new: "provider_inv new st'"
    using switch_endpoint(1) [OF old assms(2,3)] .
  show ?thesis
    using switch_endpoint(2-) [OF old assms(2,3)] inv_subscriptions [OF old]
      inv_subscriptions [OF new]
    by simp
qed

theorem endpoint_switch_recreates_connections_witness:
  "js ''https://api.testnet.solana.com'' \<noteq> config_endpointUrl (fst example_mounted) \<and>
   config_connection (fst example_mounted) = 2 \<and>
   config_sendConnection (fst example_mounted) = 3 \<and>
   config_connection (fst example_switched) = 4 \<and>
   config_sendConnection (fst example_switched) = 5 \<and>
   objects (runtime (snd example_mounted)) 4 = None \<and>
   objects (runtime (snd example_mounted)) 5 = None \<and>
   account_subscriptions (runtime (snd example_switched)) 4 = [(1, 2, Callback_undefined)] \<and>
   slot_subscriptions (runtime (snd example_switched)) 4 = [(1, Callback_null)] \<and>
   account_subscriptions (runtime (snd example_switched)) 5 = [(1, 3, Callback_undefined)] \<and>
   slot_subscriptions (runtime (snd example_switched)) 5 = [(1, Callback_null)] \<and>
   account_subscriptions (runtime (snd example_switched)) 2 = [] \<and>
   slot_subscriptions (runtime (snd example_switched)) 2 = [] \<and>
   account_subscriptions (runtime (snd example_switched)) 3 = [] \<and>
   slot_subscriptions (runtime (snd example_switched)) 3 = []"
proof -
  have neq: "js ''https://api.testnet.solana.com'' \<noteq> config_endpointUrl (fst example_mounted)"
    by (simp add: example_mounted_def after_renders_def config_endpointUrl_render js_def)
  have mounted:
    "(case example_mounted of (cfg, st) \<Rightarrow>
        (config_connection cfg, config_sendConnection cfg)) = (2, 3)"
    by code_simp
  have switched:
    "(case example_switched of (cfg, st) \<Rightarrow>
        (config_connection cfg, config_sendConnection cfg,
         map (account_subscriptions (runtime st)) [4, 5],
         map (slot_subscriptions (runtime st)) [4, 5])) =
     (4, 5, [[(1, 2, Callback_undefined)], [(1, 3, Callback_undefined)]],
      [[(1, Callback_null)], [(1, Callback_null)]])"
    by code_simp
  have handles:
    "config_connection (fst example_mounted) = 2 \<and>
     config_sendConnection (fst example_mounted) = 3 \<and>
     config_connection (fst example_switched) = 4 \<and>
     config_sendConnection (fst example_switched) = 5 \<and>
     account_subscriptions (runtime (snd example_switched)) 4 = [(1, 2, Callback_undefined)] \<and>
     slot_subscriptions (runtime (snd example_switched)) 4 = [(1, Callback_null)] \<and>
     account_subscriptions (runtime (snd example_switched)) 5 = [(1, 3, Callback_undefined)] \<and>
     slot_subscriptions (runtime (snd example_switched)) 5 = [(1, Callback_null)]"
    using mounted switched by (simp add: case_prod_beta)
  show ?thesis
    using endpoint_switch_recreates_connections
      [where v = None and capi = example_clusterApiUrl
         and ?endpoint0.0 = "js ''https://api.devnet.solana.com''" and endpoints = "[]"
         and old = "fst example_mounted" and st = "snd example_mounted"
         and endpoint = "js ''https://api.testnet.solana.com''"
         and new = "fst example_switched" and st' = "snd example_switched"]
      neq handles
    by (simp add: example_mounted_def [symmetric] example_switched_def [symmetric])
qed

section \<open>The network identifier\<close>

lemma Object_prototype_keys: "\<forall>k \<in> set (map fst Object_prototype). \<not> is_url k"
  by (simp add: Object_prototype_def is_url_def js_def)

lemma ENDPOINTS_get_url:
  assumes "is_url endpoint"
  shows "ENDPOINTS_get capi endpoint = Undefined"
proof -
  have "endpoint \<notin> set (map fst Object_prototype)"
    using Object_prototype_keys assms by blast
  then have "map_of Object_prototype endpoint = None"
    by (simp add: map_of_eq_None_iff)
  moreover have "endpoint \<noteq> js ''mainnet-beta''" "endpoint \<noteq> js ''testnet''"
    "endpoint \<noteq> js ''devnet''"
    using assms by (auto simp: is_url_def js_def)
  ultimately show ?thesis by (simp add: ENDPOINTS_get_def)
qed

lemma name_ENDPOINTS: "name (ENDPOINTS capi c) = c"
  by (cases c) (simp_all add: ENDPOINTS_def)

lemma config_network_eq:
  "config_network (fst (SolanaConnectionConfigProvider v capi endpoint st)) =
     value_name (case ENDPOINTS_get capi endpoint of
                   Undefined \<Rightarrow> EndpointValue (DEFAULT_ENDPOINT v capi)
                 | EndpointValue e \<Rightarrow> EndpointValue e
                 | InheritedValue n \<Rightarrow> InheritedValue n)"
  by (simp add: SolanaConnectionConfigProvider_def Let_def
      split: prod.split property_value.split)

lemma ENDPOINTS_get_off_the_keys:
  assumes "endpoint \<notin> {js ''mainnet-beta'', js ''testnet'', js ''devnet''}"
    and "endpoint \<notin> set (map fst Object_prototype)"
  shows "ENDPOINTS_get capi endpoint = Undefined"
proof -
  have "map_of Object_prototype endpoint = None"
    using assms(2) by (simp add: map_of_eq_None_iff)
  then show ?thesis
    using assms(1) by (simp add: ENDPOINTS_get_def)
qed

text \<open>
  C9, as stated, fails: the stored string \<^verbatim>\<open>constructor\<close> is not one of the three keys,
  but the lookup finds the property that \<^verbatim>\<open>ENDPOINTS\<close> inherits under that name, and the
  network identifier is \<^verbatim>\<open>Object\<close>, not the default \<^verbatim>\<open>devnet\<close>.
\<close>

theorem network_of_inherited_property_name:
  "js ''constructor'' \<notin> {js ''mainnet-beta'', js ''testnet'', js ''devnet''} \<and>
   config_network (fst (SolanaConnectionConfigProvider None example_clusterApiUrl
      (js ''constructor'') (unmounted None example_clusterApiUrl))) = Some (js ''Object'') \<and>
   cluster_name (DEFAULT_CLUSTER None) = js ''devnet''"
  by code_simp

text \<open>
  C9, amended. For every stored endpoint string that is not literally one of the keys
  \<^verbatim>\<open>mainnet-beta\<close>, \<^verbatim>\<open>testnet\<close> and \<^verbatim>\<open>devnet\<close> and does not name a property inherited
  from \<^verbatim>\<open>Object.prototype\<close>, the network identifier of the context value is the name of
  the default cluster, whatever the state of the provider: the lookup in \<^verbatim>\<open>ENDPOINTS\<close>
  finds nothing. In particular it is so for every URL, so selecting an endpoint by its
  URL leaves the network identifier at the default.
\<close>

theorem network_is_default_off_the_keys:
  "(endpoint \<notin> {js ''mainnet-beta'', js ''testnet'', js ''devnet''} \<and>
    endpoint \<notin> set (map fst Object_prototype) \<longrightarrow>
      config_network (fst (SolanaConnectionConfigProvider v capi endpoint st)) =
        Some (cluster_name (DEFAULT_CLUSTER v))) \<and>
   (is_url endpoint \<longrightarrow>
      config_network (fst (SolanaConnectionConfigProvider v capi endpoint st)) =
        Some (cluster_name (DEFAULT_CLUSTER v)))"
proof (intro conjI impI)
  assume "endpoint \<notin> {js ''mainnet-beta'', js ''testnet'', js ''devnet''} \<and>
          endpoint \<notin> set (map fst Object_prototype)"
  then have "ENDPOINTS_get capi endpoint = Undefined"
    using ENDPOINTS_get_off_the_keys by blast
  then show "config_network (fst (SolanaConnectionConfigProvider v capi endpoint st)) =
               Some (cluster_name (DEFAULT_CLUSTER v))"
    by (simp add: config_network_eq value_name_def DEFAULT_ENDPOINT_def name_ENDPOINTS)
next
  assume "is_url endpoint"
  then have "ENDPOINTS_get capi endpoint = Undefined"
    by (rule ENDPOINTS_get_url)
  then show "config_network (fst (SolanaConnectionConfigProvider v capi endpoint st)) =
               Some (cluster_name (DEFAULT_CLUSTER v))"
    by (simp add: config_network_eq value_name_def DEFAULT_ENDPOINT_def name_ENDPOINTS)
qed

theorem network_is_default_off_the_keys_witness:
  "js ''https://solana-api.projectserum.com/'' \<notin>
     {js ''mainnet-beta'', js ''testnet'', js ''devnet''} \<and>
   js ''https://solana-api.projectserum.com/'' \<notin> set (map fst Object_prototype) \<and>
   is_url (js ''https://solana-api.projectserum.com/'') \<and>
   config_network (fst (SolanaConnectionConfigProvider None example_clusterApiUrl
      (endpointUrl (ENDPOINTS example_clusterApiUrl MainnetBeta))
      (unmounted None example_clusterApiUrl))) =
     Some (js ''devnet'')"
proof -
  have u: "is_url (js ''https://solana-api.projectserum.com/'')"
    by (simp add: is_url_def js_def)
  have k: "js ''https://solana-api.projectserum.com/'' \<notin>
             {js ''mainnet-beta'', js ''testnet'', js ''devnet''}"
    by (simp add: js_def)
  have p: "js ''https://solana-api.projectserum.com/'' \<notin> set (map fst Object_prototype)"
    using Object_prototype_keys u by blast
  show ?thesis
    using u k p
      network_is_default_off_the_keys
        [where endpoint = "js ''https://solana-api.projectserum.com/''" and v = None
           and capi = example_clusterApiUrl and st = "unmounted None example_clusterApiUrl"]
    by (simp add: ENDPOINTS_def DEFAULT_CLUSTER_def cluster_name_def)
qed

end
